theory Spec2Isabelle
  imports Complex_Main
begin

section \<open>Python values and string helpers\<close>

text \<open>
  Exceptions are values. The services only ever distinguish "an exception was raised"
  from "a value was returned", so the exceptions of the external libraries (PyMuPDF,
  python-docx, the file system, OpenAI, ChromaDB, NLTK, rouge-score, scikit-learn) are
  one constructor carrying the library's message.
\<close>

datatype py_error =
    KeyError string
  | IndexError
  | TypeError
  | AttributeError
  | ValueError
  | ZeroDivisionError
  | LibraryError string

text \<open>
  Python floats are IEEE 754 binary64 numbers. A finite float is represented by its exact
  value, a rational; \<open>Fin x\<close> stands for a float only when \<open>x\<close> is representable, that is
  when \<open>to_double x = Fin x\<close>. The sign of zero is not represented. The three special
  values are kept because \<open>float()\<close> produces them from the texts \<open>inf\<close>, \<open>-inf\<close> and
  \<open>nan\<close>, and Python's comparisons treat them specially.
\<close>

datatype pyfloat = Fin rat | PInf | NInf | NaN

text \<open>\<open>a < b\<close> on floats: every comparison with NaN is false.\<close>

fun py_lt :: "pyfloat \<Rightarrow> pyfloat \<Rightarrow> bool" where
  "py_lt NaN _ = False"
| "py_lt _ NaN = False"
| "py_lt (Fin a) (Fin b) = (a < b)"
| "py_lt (Fin a) PInf = True"
| "py_lt (Fin a) NInf = False"
| "py_lt PInf _ = False"
| "py_lt NInf NInf = False"
| "py_lt NInf _ = True"

definition py_gt :: "pyfloat \<Rightarrow> pyfloat \<Rightarrow> bool" where
  "py_gt a b = py_lt b a"

text \<open>
  The builtins \<open>max(a, b)\<close> and \<open>min(a, b)\<close>: the first argument is kept unless the second
  is strictly greater (strictly smaller).
\<close>

definition py_max :: "pyfloat \<Rightarrow> pyfloat \<Rightarrow> pyfloat" where
  "py_max a b = (if py_gt b a then b else a)"

definition py_min :: "pyfloat \<Rightarrow> pyfloat \<Rightarrow> pyfloat" where
  "py_min a b = (if py_lt b a then b else a)"

text \<open>Rounding a rational to the nearest integer, a tie going to the even neighbour.\<close>

definition round_half_even :: "rat \<Rightarrow> int" where
  "round_half_even x =
     (let f = \<lfloor>x\<rfloor>; d = x - of_int f
      in if d < 1 / 2 then f
         else if 1 / 2 < d then f + 1
         else if even f then f else f + 1)"

text \<open>
  The binary exponent of a positive rational: \<open>floor_log2 x\<close> is the \<open>e\<close> with
  \<open>2 ^ e \<le> x < 2 ^ (e + 1)\<close>, found by halving or doubling.
\<close>

function log2_up :: "rat \<Rightarrow> int" where
  "log2_up x = (if x < 2 then 0 else 1 + log2_up (x / 2))"
  by pat_completeness auto
termination
  by (relation "measure (\<lambda>x. nat \<lfloor>x\<rfloor>)") (auto simp: not_less, linarith)

function log2_down :: "rat \<Rightarrow> int" where
  "log2_down x = (if x \<le> 0 \<or> 1 \<le> x then 0 else log2_down (2 * x) - 1)"
  by pat_completeness auto
termination
proof (relation "measure (\<lambda>x. nat \<lfloor>1 / x\<rfloor>)")
  show "wf (measure (\<lambda>x::rat. nat \<lfloor>1 / x\<rfloor>))" by simp
next
  fix x :: rat
  assume "\<not> (x \<le> 0 \<or> 1 \<le> x)"
  then have x: "0 < x" "x < 1" by auto
  define y where "y = 1 / x"
  have y: "1 < y" using x by (simp add: y_def)
  have half: "1 / (2 * x) = y / 2" by (simp add: y_def)
  have fl: "1 \<le> \<lfloor>y\<rfloor>" using y by linarith
  have "y < of_int \<lfloor>y\<rfloor> + 1" by linarith
  then have "y / 2 < of_int \<lfloor>y\<rfloor>" using fl by linarith
  then have "\<lfloor>y / 2\<rfloor> < \<lfloor>y\<rfloor>" by (simp add: floor_less_iff)
  then have lt: "\<lfloor>1 / (2 * x)\<rfloor> < \<lfloor>1 / x\<rfloor>" by (metis half y_def)
  have pos: "0 < \<lfloor>1 / x\<rfloor>" using fl by (simp add: y_def)
  from lt pos show "(2 * x, x) \<in> measure (\<lambda>x. nat \<lfloor>1 / x\<rfloor>)"
    by simp
qed

declare log2_up.simps [simp del]
declare log2_down.simps [simp del]

definition floor_log2 :: "rat \<Rightarrow> int" where
  "floor_log2 x = (if 1 \<le> x then log2_up x else log2_down x)"

definition pow2 :: "int \<Rightarrow> rat" where
  "pow2 e = (if 0 \<le> e then 2 ^ nat e else 1 / 2 ^ nat (- e))"

text \<open>
  The float nearest to a rational (round to nearest, ties to even): 53 significant bits,
  exponents from \<open>-1022\<close> (below which the spacing stays that of the subnormal numbers) to
  1023 (above which the result is an infinity). Every float operation below is the exact
  operation followed by this rounding, as IEEE 754 prescribes.
\<close>

definition to_double :: "rat \<Rightarrow> pyfloat" where
  "to_double x =
     (if x = 0 then Fin 0
      else let a = \<bar>x\<bar>;
               e = max (floor_log2 a) (- 1022);
               ulp = pow2 (e - 52);
               m = round_half_even (a / ulp)
           in if 1024 \<le> e \<or> (e = 1023 \<and> m = 2 ^ 53) then (if 0 < x then PInf else NInf)
              else Fin (if 0 < x then of_int m * ulp else - (of_int m * ulp)))"

fun py_add :: "pyfloat \<Rightarrow> pyfloat \<Rightarrow> pyfloat" where
  "py_add NaN _ = NaN"
| "py_add _ NaN = NaN"
| "py_add (Fin a) (Fin b) = to_double (a + b)"
| "py_add PInf NInf = NaN"
| "py_add NInf PInf = NaN"
| "py_add PInf _ = PInf"
| "py_add _ PInf = PInf"
| "py_add NInf _ = NInf"
| "py_add _ NInf = NInf"

fun py_neg :: "pyfloat \<Rightarrow> pyfloat" where
  "py_neg (Fin a) = Fin (- a)"
| "py_neg PInf = NInf"
| "py_neg NInf = PInf"
| "py_neg NaN = NaN"

definition py_sub :: "pyfloat \<Rightarrow> pyfloat \<Rightarrow> pyfloat" where
  "py_sub a b = py_add a (py_neg b)"

fun py_mul :: "pyfloat \<Rightarrow> pyfloat \<Rightarrow> pyfloat" where
  "py_mul NaN _ = NaN"
| "py_mul _ NaN = NaN"
| "py_mul (Fin a) (Fin b) = to_double (a * b)"
| "py_mul (Fin a) PInf = (if a = 0 then NaN else if 0 < a then PInf else NInf)"
| "py_mul (Fin a) NInf = (if a = 0 then NaN else if 0 < a then NInf else PInf)"
| "py_mul PInf (Fin b) = (if b = 0 then NaN else if 0 < b then PInf else NInf)"
| "py_mul NInf (Fin b) = (if b = 0 then NaN else if 0 < b then NInf else PInf)"
| "py_mul PInf PInf = PInf"
| "py_mul PInf NInf = NInf"
| "py_mul NInf PInf = NInf"
| "py_mul NInf NInf = PInf"

text \<open>\<open>a / b\<close> on floats: division by zero raises; an infinite divisor gives zero.\<close>

fun py_truediv :: "pyfloat \<Rightarrow> pyfloat \<Rightarrow> py_error + pyfloat" where
  "py_truediv NaN (Fin b) = (if b = 0 then Inl ZeroDivisionError else Inr NaN)"
| "py_truediv NaN _ = Inr NaN"
| "py_truediv _ NaN = Inr NaN"
| "py_truediv (Fin a) (Fin b) = (if b = 0 then Inl ZeroDivisionError else Inr (to_double (a / b)))"
| "py_truediv (Fin a) _ = Inr (Fin 0)"
| "py_truediv PInf (Fin b) =
     (if b = 0 then Inl ZeroDivisionError else if 0 < b then Inr PInf else Inr NInf)"
| "py_truediv NInf (Fin b) =
     (if b = 0 then Inl ZeroDivisionError else if 0 < b then Inr NInf else Inr PInf)"
| "py_truediv _ _ = Inr NaN"

text \<open>
  \<open>round(x, nd)\<close>: the float nearest to the decimal with \<open>nd\<close> places that is nearest to
  the exact value of \<open>x\<close>, a tie going to the even decimal; infinities and NaN are
  returned unchanged.
\<close>

definition round_to :: "nat \<Rightarrow> rat \<Rightarrow> rat" where
  "round_to nd x = of_int (round_half_even (x * 10 ^ nd)) / 10 ^ nd"

fun py_round :: "pyfloat \<Rightarrow> nat \<Rightarrow> pyfloat" where
  "py_round (Fin x) nd = to_double (round_to nd x)"
| "py_round v nd = v"

text \<open>
  Strings are lists of characters. \<open>str.strip()\<close>, \<open>str.split()\<close> and the regular
  expression class \<open>\s\<close> use the whitespace characters below (those of the first 256
  code points).
\<close>

definition py_isspace :: "char \<Rightarrow> bool" where
  "py_isspace c = (c \<in> set [CHR 0x09, CHR 0x0A, CHR 0x0B, CHR 0x0C, CHR 0x0D,
                              CHR 0x1C, CHR 0x1D, CHR 0x1E, CHR 0x1F, CHR 0x20,
                              CHR 0x85, CHR 0xA0])"

definition py_strip :: "string \<Rightarrow> string" where
  "py_strip s = rev (dropWhile py_isspace (rev (dropWhile py_isspace s)))"

text \<open>\<open>s.split()\<close>: the maximal runs of non-whitespace characters.\<close>

fun py_split_from :: "string \<Rightarrow> string \<Rightarrow> string list" where
  "py_split_from w [] = (if w = [] then [] else [w])"
| "py_split_from w (c # cs) =
     (if py_isspace c
      then (if w = [] then py_split_from [] cs else w # py_split_from [] cs)
      else py_split_from (w @ [c]) cs)"

definition py_split :: "string \<Rightarrow> string list" where
  "py_split s = py_split_from [] s"

fun startswith :: "string \<Rightarrow> string \<Rightarrow> bool" where
  "startswith s [] = True"
| "startswith [] (p # ps) = False"
| "startswith (c # cs) (p # ps) = (c = p \<and> startswith cs ps)"

text \<open>\<open>s.find(sub)\<close>: the lowest index at which \<open>sub\<close> occurs in \<open>s\<close>, or \<open>-1\<close>.\<close>

fun find_from :: "nat \<Rightarrow> string \<Rightarrow> string \<Rightarrow> int" where
  "find_from i [] sub = (if sub = [] then int i else - 1)"
| "find_from i (c # cs) sub =
     (if startswith (c # cs) sub then int i else find_from (Suc i) cs sub)"

definition py_find :: "string \<Rightarrow> string \<Rightarrow> int" where
  "py_find s sub = find_from 0 s sub"


fun py_join :: "string \<Rightarrow> string list \<Rightarrow> string" where
  "py_join sep [] = []"
| "py_join sep [x] = x"
| "py_join sep (x # y # ys) = x @ sep @ py_join sep (y # ys)"

text \<open>
  \<open>str.lower()\<close> on the first 256 code points: the ASCII capitals and the Latin-1
  capitals U+00C0 to U+00DE (without the multiplication sign U+00D7) move up by 32.
\<close>

definition upper_chars :: string where
  "upper_chars =
     ''ABCDEFGHIJKLMNOPQRSTUVWXYZ'' @
     [CHR 0xC0, CHR 0xC1, CHR 0xC2, CHR 0xC3, CHR 0xC4, CHR 0xC5, CHR 0xC6, CHR 0xC7,
          CHR 0xC8, CHR 0xC9, CHR 0xCA, CHR 0xCB, CHR 0xCC, CHR 0xCD, CHR 0xCE, CHR 0xCF,
          CHR 0xD0, CHR 0xD1, CHR 0xD2, CHR 0xD3, CHR 0xD4, CHR 0xD5, CHR 0xD6, CHR 0xD8,
          CHR 0xD9, CHR 0xDA, CHR 0xDB, CHR 0xDC, CHR 0xDD, CHR 0xDE]"

definition lower_chars :: string where
  "lower_chars =
     ''abcdefghijklmnopqrstuvwxyz'' @
     [CHR 0xE0, CHR 0xE1, CHR 0xE2, CHR 0xE3, CHR 0xE4, CHR 0xE5, CHR 0xE6, CHR 0xE7,
          CHR 0xE8, CHR 0xE9, CHR 0xEA, CHR 0xEB, CHR 0xEC, CHR 0xED, CHR 0xEE, CHR 0xEF,
          CHR 0xF0, CHR 0xF1, CHR 0xF2, CHR 0xF3, CHR 0xF4, CHR 0xF5, CHR 0xF6, CHR 0xF8,
          CHR 0xF9, CHR 0xFA, CHR 0xFB, CHR 0xFC, CHR 0xFD, CHR 0xFE]"

definition py_lower_char :: "char \<Rightarrow> char" where
  "py_lower_char c =
     (case map_of (zip upper_chars lower_chars) c of
        None \<Rightarrow> c
      | Some l \<Rightarrow> l)"

definition py_lower :: "string \<Rightarrow> string" where
  "py_lower s = map py_lower_char s"




section \<open>Document processor (services/document\_processor.py)\<close>

text \<open>
  What the processor gets from outside the repository: the text splitter
  (RecursiveCharacterTextSplitter, chunk size 512, overlap 100), SHA-256, and the three
  readers. A PDF page carries its extracted text and what the render-and-recognise
  pipeline of \<open>_ocr_page\<close> would give for it.
\<close>

record pdf_page =
  get_text :: string
  image_to_string :: "py_error + string"

record doc_env =
  split_text :: "string \<Rightarrow> string list"
  sha256_hexdigest :: "string \<Rightarrow> string"
  fitz_open :: "string \<Rightarrow> py_error + pdf_page list"
  docx_paragraphs :: "string \<Rightarrow> py_error + string list"
  read_file :: "string \<Rightarrow> py_error + string"

record chunk =
  chunk_index :: nat
  chunk_text :: string
  page_number :: "nat option"
  char_offset_start :: int
  char_offset_end :: int
  content_hash :: string
  token_count :: nat

text \<open>
  The dictionary appended by each of the three parse paths; only \<open>chunk_index\<close>, the page number
  and the text searched by \<open>find\<close> differ between them.
\<close>

definition chunk_dict :: "doc_env \<Rightarrow> nat \<Rightarrow> string \<Rightarrow> string \<Rightarrow> nat option \<Rightarrow> chunk" where
  "chunk_dict env idx split source page =
     (let char_start = py_find source split
      in \<lparr> chunk_index = idx,
           chunk_text = split,
           page_number = page,
           char_offset_start = max 0 char_start,
           char_offset_end =
             (if 0 \<le> char_start then char_start + int (length split) else int (length split)),
           content_hash = take 16 (sha256_hexdigest env split),
           token_count = length (py_split split) \<rparr>)"

text \<open>\<open>_ocr_page\<close>: any exception of the pipeline is logged and becomes the empty text.\<close>

definition ocr_page :: "pdf_page \<Rightarrow> string" where
  "ocr_page page = (case image_to_string page of Inl e \<Rightarrow> [] | Inr t \<Rightarrow> t)"

text \<open>
  \<open>_parse_pdf\<close>. The state carried through the pages and their pieces is \<open>(processed_chunks, chunk_index)\<close>;
  \<open>total_text_length\<close> and \<open>ocr_used\<close> only feed log messages and are left out.
\<close>

fun pdf_split_loop ::
  "doc_env \<Rightarrow> nat \<Rightarrow> string \<Rightarrow> string list \<Rightarrow> chunk list \<times> nat \<Rightarrow> chunk list \<times> nat" where
  "pdf_split_loop env page_num page_text [] st = st"
| "pdf_split_loop env page_num page_text (split # splits) (processed_chunks, idx) =
     (if py_strip split = [] then pdf_split_loop env page_num page_text splits (processed_chunks, idx)
      else pdf_split_loop env page_num page_text splits
             (processed_chunks @ [chunk_dict env idx split page_text (Some (page_num + 1))],
              idx + 1))"

fun pdf_page_loop ::
  "doc_env \<Rightarrow> pdf_page list \<Rightarrow> nat \<Rightarrow> chunk list \<times> nat \<Rightarrow> chunk list \<times> nat" where
  "pdf_page_loop env [] page_num st = st"
| "pdf_page_loop env (page # pages) page_num st =
     (let page_text0 = get_text page;
          page_text = (if py_strip page_text0 = [] then ocr_page page else page_text0)
      in if py_strip page_text = [] then pdf_page_loop env pages (page_num + 1) st
         else pdf_page_loop env pages (page_num + 1)
                (pdf_split_loop env page_num page_text (split_text env page_text) st))"

definition parse_pdf :: "doc_env \<Rightarrow> string \<Rightarrow> py_error + chunk list" where
  "parse_pdf env file_path =
     (case fitz_open env file_path of
        Inl e \<Rightarrow> Inl e
      | Inr doc \<Rightarrow> Inr (fst (pdf_page_loop env doc 0 ([], 0))))"

text \<open>
  The loop of \<open>_parse_docx\<close> and of \<open>_parse_text\<close> (the two are the same text):
  \<open>for idx, split in enumerate(splits)\<close>, skipping blank pieces with \<open>continue\<close>.
\<close>

fun enumerate_loop ::
  "doc_env \<Rightarrow> string \<Rightarrow> nat \<Rightarrow> string list \<Rightarrow> chunk list \<Rightarrow> chunk list" where
  "enumerate_loop env full_text idx [] processed_chunks = processed_chunks"
| "enumerate_loop env full_text idx (split # splits) processed_chunks =
     (if py_strip split = [] then enumerate_loop env full_text (idx + 1) splits processed_chunks
      else enumerate_loop env full_text (idx + 1) splits
             (processed_chunks @ [chunk_dict env idx split full_text None]))"

definition parse_docx :: "doc_env \<Rightarrow> string \<Rightarrow> py_error + chunk list" where
  "parse_docx env file_path =
     (case docx_paragraphs env file_path of
        Inl e \<Rightarrow> Inl e
      | Inr paragraphs \<Rightarrow>
          (let full_text = py_join [CHR 0x0A, CHR 0x0A]
                             (filter (\<lambda>p. py_strip p \<noteq> []) paragraphs)
           in Inr (enumerate_loop env full_text 0 (split_text env full_text) [])))"

definition parse_text :: "doc_env \<Rightarrow> string \<Rightarrow> py_error + chunk list" where
  "parse_text env file_path =
     (case read_file env file_path of
        Inl e \<Rightarrow> Inl e
      | Inr full_text \<Rightarrow> Inr (enumerate_loop env full_text 0 (split_text env full_text) []))"

text \<open>
  \<open>Path(file_path).suffix\<close>: the final component of the path (empty and \<open>.\<close> components
  dropped), from its last dot on, provided that dot is neither its first nor its last
  character.
\<close>

fun split_on :: "char \<Rightarrow> string \<Rightarrow> string \<Rightarrow> string list" where
  "split_on sep w [] = [w]"
| "split_on sep w (c # cs) =
     (if c = sep then w # split_on sep [] cs else split_on sep (w @ [c]) cs)"

definition path_name :: "string \<Rightarrow> string" where
  "path_name p =
     (case rev (filter (\<lambda>part. part \<noteq> [] \<and> part \<noteq> ''.'') (split_on (CHR ''/'') [] p)) of
        [] \<Rightarrow> []
      | name # _ \<Rightarrow> name)"

definition path_suffix :: "string \<Rightarrow> string" where
  "path_suffix p =
     (let name = path_name p;
          after = takeWhile (\<lambda>c. c \<noteq> CHR ''.'') (rev name)
      in if length after < length name \<and> after \<noteq> [] \<and> length after + 1 < length name
         then CHR ''.'' # rev after else [])"

definition parse_document :: "doc_env \<Rightarrow> string \<Rightarrow> py_error + chunk list" where
  "parse_document env file_path =
     (let extension = py_lower (path_suffix file_path)
      in if extension = ''.pdf'' then parse_pdf env file_path
         else if extension \<in> set [''.docx'', ''.doc''] then parse_docx env file_path
         else if extension \<in> set [''.txt''] then parse_text env file_path
         else Inr [])"

section \<open>Retrieval results and the external model\<close>

text \<open>
  A retrieval result is the dictionary built by \<open>VectorStoreService.query\<close>. A field
  is \<open>None\<close> when the key is missing from the dictionary (for \<open>chunk_id\<close> also when its
  value is Python's \<open>None\<close>: the code reads it with \<open>get\<close> only).
\<close>

record metadata =
  md_document_id :: "string option"
  md_chunk_id :: "string option"
  md_page_number :: "nat option"
  md_chunk_index :: "nat option"

record retrieval_result =
  r_vector_id :: "string option"
  r_text :: "string option"
  r_metadata :: "metadata option"
  r_score :: "pyfloat option"
  r_chunk_id :: "string option"

text \<open>
  \<open>import numpy as np\<close> either fails or provides \<open>np.mean\<close>, whose order of summation
  is numpy's own; \<open>float(np.mean(scores))\<close> is taken from the library.
\<close>

type_synonym numpy = "py_error + (pyfloat list \<Rightarrow> pyfloat)"

text \<open>
  The OpenAI client and the builtin \<open>float\<close>. \<open>chat_create api_key model messages\<close> is
  \<open>client.chat.completions.create(...)\<close> followed by \<open>.choices[0].message.content\<close>:
  an exception, or the content, which may be \<open>None\<close>. \<open>float_of_str\<close> is \<open>float(s)\<close>,
  with \<open>None\<close> for \<open>ValueError\<close>.
\<close>

record llm_env =
  chat_create :: "string \<Rightarrow> string \<Rightarrow> (string \<times> string) list \<Rightarrow> py_error + string option"
  float_of_str :: "string \<Rightarrow> pyfloat option"

definition nl :: string where
  "nl = [CHR 0x0A]"

definition indent20 :: string where
  "indent20 = replicate 20 (CHR '' '')"

section \<open>Confidence scorer (services/confidence\_scorer.py)\<close>

definition faithfulness_system_prompt :: string where
  "faithfulness_system_prompt =
     ''Score answer faithfulness from 0.0 to 1.0.'' @ nl @
     indent20 @ ''1.0 = Fully supported by context'' @ nl @
     indent20 @ ''0.5 = Partially supported'' @ nl @
     indent20 @ ''0.0 = Unsupported claims'' @ nl @
     indent20 @ ''Return only the numeric score.''"

definition relevancy_system_prompt :: string where
  "relevancy_system_prompt =
     ''Score answer relevancy from 0.0 to 1.0.'' @ nl @
     indent20 @ ''1.0 = Directly answers question'' @ nl @
     indent20 @ ''0.5 = Partially relevant'' @ nl @
     indent20 @ ''0.0 = Not relevant'' @ nl @
     indent20 @ ''Return only the numeric score.''"

text \<open>
  The tail shared by \<open>_check_faithfulness\<close> and \<open>_check_relevancy\<close>: the outer \<open>try\<close>
  turns a failed call into 0.5, the inner one a content that is \<open>None\<close> or that \<open>float\<close>
  rejects; a parsed score goes through \<open>min(max(score, 0.0), 1.0)\<close>.
\<close>

definition grade_response :: "llm_env \<Rightarrow> py_error + string option \<Rightarrow> pyfloat" where
  "grade_response env response =
     (case response of
        Inl e \<Rightarrow> Fin (1 / 2)
      | Inr None \<Rightarrow> Fin (1 / 2)
      | Inr (Some content) \<Rightarrow>
          (case float_of_str env (py_strip content) of
             None \<Rightarrow> Fin (1 / 2)
           | Some score \<Rightarrow> py_min (py_max score (Fin 0)) (Fin 1)))"

definition check_faithfulness :: "llm_env \<Rightarrow> string \<Rightarrow> string list \<Rightarrow> string \<Rightarrow> pyfloat" where
  "check_faithfulness env answer contexts api_key =
     (let context_text = py_join (nl @ ''---'' @ nl) contexts
      in grade_response env
           (chat_create env api_key ''gpt-4o-mini''
              [(''system'', faithfulness_system_prompt),
               (''user'', ''Context:'' @ nl @ context_text @ nl @ nl @ ''Answer:'' @ nl @ answer)]))"

definition check_relevancy :: "llm_env \<Rightarrow> string \<Rightarrow> string \<Rightarrow> string \<Rightarrow> pyfloat" where
  "check_relevancy env answer question api_key =
     grade_response env
       (chat_create env api_key ''gpt-4o-mini''
          [(''system'', relevancy_system_prompt),
           (''user'', ''Question:'' @ nl @ question @ nl @ nl @ ''Answer:'' @ nl @ answer)])"

record confidence =
  overall :: pyfloat
  retrieval :: pyfloat
  coverage :: pyfloat
  faithfulness :: pyfloat
  relevancy :: pyfloat

text \<open>\<open>[r.get("score", 0.0) for r in retrieval_results]\<close>\<close>

definition scores_of :: "retrieval_result list \<Rightarrow> pyfloat list" where
  "scores_of retrieval_results =
     map (\<lambda>r. case r_score r of None \<Rightarrow> Fin 0 | Some s \<Rightarrow> s) retrieval_results"

text \<open>\<open>float(np.mean(scores)) if scores else 0.0\<close>\<close>

definition retrieval_conf_of :: "(pyfloat list \<Rightarrow> pyfloat) \<Rightarrow> pyfloat list \<Rightarrow> pyfloat" where
  "retrieval_conf_of np_mean scores = (if scores \<noteq> [] then np_mean scores else Fin 0)"

text \<open>
  \<open>sum(1 for s in scores if s > 0.7) / max(len(scores), 1)\<close>: a count divided by a
  positive integer, the quotient rounded to a float.
\<close>

definition coverage_of :: "pyfloat list \<Rightarrow> pyfloat" where
  "coverage_of scores =
     to_double (of_nat (length (filter (\<lambda>s. py_gt s (to_double (7 / 10))) scores)) /
                of_nat (max (length scores) 1))"

text \<open>\<open>[r["text"] for r in retrieval_results]\<close>: a missing key raises.\<close>

fun texts_of :: "retrieval_result list \<Rightarrow> py_error + string list" where
  "texts_of [] = Inr []"
| "texts_of (r # rs) =
     (case r_text r of
        None \<Rightarrow> Inl (KeyError ''text'')
      | Some t \<Rightarrow> (case texts_of rs of Inl e \<Rightarrow> Inl e | Inr ts \<Rightarrow> Inr (t # ts)))"

text \<open>
  The body of the \<open>try\<close> block of \<open>calculate_confidence\<close>; its first statement is the
  import of numpy.
\<close>

definition calculate_confidence_try ::
  "numpy \<Rightarrow> llm_env \<Rightarrow> retrieval_result list \<Rightarrow> string \<Rightarrow> string \<Rightarrow> string
     \<Rightarrow> py_error + confidence" where
  "calculate_confidence_try numpy env retrieval_results answer question api_key =
     (case numpy of
        Inl e \<Rightarrow> Inl e
      | Inr np_mean \<Rightarrow>
          (let scores = scores_of retrieval_results;
               retrieval_conf = retrieval_conf_of np_mean scores;
               coverage_v = coverage_of scores
           in case texts_of retrieval_results of
                Inl e \<Rightarrow> Inl e
              | Inr contexts \<Rightarrow>
                  (let faithfulness_v = check_faithfulness env answer contexts api_key;
                       relevancy_v = check_relevancy env answer question api_key;
                       composite =
                         py_add (py_add (py_add (py_mul (to_double (25 / 100)) retrieval_conf)
                                                (py_mul (to_double (15 / 100)) coverage_v))
                                        (py_mul (to_double (35 / 100)) faithfulness_v))
                                (py_mul (to_double (25 / 100)) relevancy_v)
                   in Inr \<lparr> overall = py_round composite 3,
                            retrieval = py_round retrieval_conf 3,
                            coverage = py_round coverage_v 3,
                            faithfulness = py_round faithfulness_v 3,
                            relevancy = py_round relevancy_v 3 \<rparr>)))"

definition default_scores :: confidence where
  "default_scores =
     \<lparr> overall = Fin (1 / 2), retrieval = Fin (1 / 2), coverage = Fin (1 / 2),
       faithfulness = Fin (1 / 2), relevancy = Fin (1 / 2) \<rparr>"

definition calculate_confidence ::
  "numpy \<Rightarrow> llm_env \<Rightarrow> retrieval_result list \<Rightarrow> string \<Rightarrow> string \<Rightarrow> string \<Rightarrow> confidence" where
  "calculate_confidence numpy env retrieval_results answer question api_key =
     (case calculate_confidence_try numpy env retrieval_results answer question api_key of
        Inl e \<Rightarrow> default_scores
      | Inr metrics \<Rightarrow> metrics)"

section \<open>Answer generator (services/answer\_generator.py)\<close>









section \<open>Answering job (tasks.py, generate\_answer\_task)\<close>






section \<open>Vector store (services/vector\_store.py)\<close>

text \<open>
  What \<open>collection.query\<close> returns: \<open>ids\<close> always, the other three entries possibly
  \<open>None\<close>. Distances are those of the collection's space (\<open>"hnsw:space": "cosine"\<close>).
\<close>

record query_result =
  ids :: "string list list"
  documents :: "string list list option"
  metadatas :: "metadata list list option"
  distances :: "pyfloat list list option"

record chroma_env =
  get_or_create_collection :: "string \<Rightarrow> py_error + unit"
  collection_query :: "string \<Rightarrow> pyfloat list \<Rightarrow> int \<Rightarrow> py_error + query_result"

text \<open>\<open>f"t_{tenant_short}_p_{project_short}"\<close>\<close>

definition collection_name :: "string \<Rightarrow> string \<Rightarrow> string" where
  "collection_name tenant_id project_id =
     (let tenant_short = take 8 (filter (\<lambda>c. c \<noteq> CHR ''-'') tenant_id);
          project_short = take 8 (filter (\<lambda>c. c \<noteq> CHR ''-'') project_id)
      in ''t_'' @ tenant_short @ ''_p_'' @ project_short)"

definition get_collection :: "chroma_env \<Rightarrow> string \<Rightarrow> string \<Rightarrow> py_error + string" where
  "get_collection env tenant_id project_id =
     (let name = collection_name tenant_id project_id
      in case get_or_create_collection env name of Inl e \<Rightarrow> Inl e | Inr _ \<Rightarrow> Inr name)"

text \<open>\<open>results[key][0][i]\<close>: subscripting \<open>None\<close> or reading past the end raises.\<close>

definition subscript_0_i :: "'a list list option \<Rightarrow> nat \<Rightarrow> py_error + 'a" where
  "subscript_0_i rows i =
     (case rows of
        None \<Rightarrow> Inl TypeError
      | Some [] \<Rightarrow> Inl IndexError
      | Some (row # _) \<Rightarrow> (if i < length row then Inr (row ! i) else Inl IndexError))"

text \<open>The dictionary appended for index \<open>i\<close>, its entries evaluated in the order written.\<close>

definition query_chunk :: "query_result \<Rightarrow> string \<Rightarrow> nat \<Rightarrow> py_error + retrieval_result" where
  "query_chunk results vector_id i =
     (case subscript_0_i (documents results) i of
        Inl e \<Rightarrow> Inl e
      | Inr document \<Rightarrow>
          (case subscript_0_i (metadatas results) i of
             Inl e \<Rightarrow> Inl e
           | Inr md \<Rightarrow>
               (case (if distances results \<noteq> None \<and> distances results \<noteq> Some []
                      then (case subscript_0_i (distances results) i of
                              Inl e \<Rightarrow> Inl e
                            | Inr d \<Rightarrow> Inr (py_sub (Fin 1) d))
                      else Inr (to_double (9 / 10))) of
                  Inl e \<Rightarrow> Inl e
                | Inr score \<Rightarrow>
                    Inr \<lparr> r_vector_id = Some vector_id,
                          r_text = Some document,
                          r_metadata = Some md,
                          r_score = Some score,
                          r_chunk_id = md_chunk_id md \<rparr>)))"

text \<open>\<open>for i in range(len(results['ids'][0]))\<close>\<close>

fun query_loop ::
  "query_result \<Rightarrow> nat \<Rightarrow> string list \<Rightarrow> retrieval_result list \<Rightarrow> py_error + retrieval_result list" where
  "query_loop results i [] chunks = Inr chunks"
| "query_loop results i (vector_id # rest) chunks =
     (case query_chunk results vector_id i of
        Inl e \<Rightarrow> Inl e
      | Inr c \<Rightarrow> query_loop results (i + 1) rest (chunks @ [c]))"

definition transform_results :: "query_result \<Rightarrow> py_error + retrieval_result list" where
  "transform_results results =
     (case ids results of
        [] \<Rightarrow> Inr []
      | first_ids # _ \<Rightarrow> query_loop results 0 first_ids [])"

definition query ::
  "chroma_env \<Rightarrow> string \<Rightarrow> string \<Rightarrow> pyfloat list \<Rightarrow> int \<Rightarrow> py_error + retrieval_result list" where
  "query env tenant_id project_id query_embedding top_k =
     (case get_collection env tenant_id project_id of
        Inl e \<Rightarrow> Inl e
      | Inr collection \<Rightarrow>
          (case collection_query env collection query_embedding top_k of
             Inl e \<Rightarrow> Inl e
           | Inr results \<Rightarrow> transform_results results))"

section \<open>Evaluation service (services/evaluation\_service.py)\<close>

text \<open>
  The two arguments of \<open>evaluate\<close> are annotated \<open>str\<close> but come from database columns;
  \<open>PyNone\<close> and a non-string value are kept so that the \<open>if not text\<close> guard and the
  failure of \<open>text.lower()\<close> are branches of the model.
\<close>

datatype pyval = PyStr string | PyNone | PyInt int

record evaluation_metrics =
  bleu_score :: "pyfloat option"
  rouge_1_f1 :: "pyfloat option"
  rouge_2_f1 :: "pyfloat option"
  rouge_l_f1 :: "pyfloat option"
  semantic_similarity :: "pyfloat option"
  overall_score :: "pyfloat option"

text \<open>
  NLTK, rouge-score, the environment variable \<open>OPENAI_API_KEY\<close>, the embeddings endpoint
  and scikit-learn's \<open>cosine_similarity\<close>. \<open>rouge_score reference generated\<close> gives the
  three F-measures (ROUGE-1, ROUGE-2, ROUGE-L). \<open>builtin_sum\<close> is the builtin \<open>sum\<close> on a
  list of floats, whose rounding depends on the interpreter (plain additions from left to
  right up to Python 3.11, compensated summation from 3.12).
\<close>

record eval_env =
  word_tokenize :: "string \<Rightarrow> py_error + string list"
  sentence_bleu :: "string list list \<Rightarrow> string list \<Rightarrow> py_error + pyfloat"
  rouge_score :: "string \<Rightarrow> string \<Rightarrow> py_error + pyfloat \<times> pyfloat \<times> pyfloat"
  getenv_api_key :: "string option"
  embeddings_create :: "string \<Rightarrow> string \<Rightarrow> py_error + pyfloat list"
  cosine_similarity :: "pyfloat list \<Rightarrow> pyfloat list \<Rightarrow> py_error + pyfloat"
  builtin_sum :: "pyfloat list \<Rightarrow> pyfloat"

text \<open>\<open>re.sub(r'\s+', ' ', text)\<close>; the flag says that the previous character was whitespace.\<close>

fun collapse_whitespace :: "bool \<Rightarrow> string \<Rightarrow> string" where
  "collapse_whitespace in_run [] = []"
| "collapse_whitespace in_run (c # cs) =
     (if py_isspace c
      then (if in_run then collapse_whitespace True cs
            else CHR '' '' # collapse_whitespace True cs)
      else c # collapse_whitespace False cs)"

definition normalize_text :: "pyval \<Rightarrow> py_error + string" where
  "normalize_text v =
     (case v of
        PyNone \<Rightarrow> Inr []
      | PyInt n \<Rightarrow> (if n = 0 then Inr [] else Inl AttributeError)
      | PyStr t \<Rightarrow>
          (if t = [] then Inr []
           else Inr (py_strip (collapse_whitespace False (py_lower t)))))"

definition calculate_bleu :: "eval_env \<Rightarrow> string \<Rightarrow> string \<Rightarrow> pyfloat option" where
  "calculate_bleu env generated reference =
     (case word_tokenize env reference of
        Inl e \<Rightarrow> None
      | Inr reference_tokens \<Rightarrow>
          (case word_tokenize env generated of
             Inl e \<Rightarrow> None
           | Inr generated_tokens \<Rightarrow>
               if reference_tokens = [] \<or> generated_tokens = [] then Some (Fin 0)
               else (case sentence_bleu env [reference_tokens] generated_tokens of
                       Inl e \<Rightarrow> None
                     | Inr score \<Rightarrow> Some score)))"

text \<open>
  The dictionary returned by \<open>_calculate_rouge\<close>, as an association list whose values may
  be \<open>None\<close> (the type \<open>_calculate_overall_score\<close> tests for). Its \<open>except\<close> branch returns
  the three keys with the value 0.0.
\<close>

type_synonym rouge_dict = "(string \<times> pyfloat option) list"

definition calculate_rouge :: "eval_env \<Rightarrow> string \<Rightarrow> string \<Rightarrow> rouge_dict" where
  "calculate_rouge env generated reference =
     (case rouge_score env reference generated of
        Inl e \<Rightarrow>
          [(''rouge1_f1'', Some (Fin 0)), (''rouge2_f1'', Some (Fin 0)),
           (''rougeL_f1'', Some (Fin 0))]
      | Inr (r1, r2, rl) \<Rightarrow>
          [(''rouge1_f1'', Some r1), (''rouge2_f1'', Some r2), (''rougeL_f1'', Some rl)])"

text \<open>\<open>d.get(key, 0)\<close>\<close>

definition dict_get0 :: "rouge_dict \<Rightarrow> string \<Rightarrow> pyfloat option" where
  "dict_get0 d key = (case map_of d key of None \<Rightarrow> Some (Fin 0) | Some v \<Rightarrow> v)"

definition calculate_semantic_similarity :: "eval_env \<Rightarrow> string \<Rightarrow> string \<Rightarrow> pyfloat option" where
  "calculate_semantic_similarity env generated reference =
     (case getenv_api_key env of
        None \<Rightarrow> None
      | Some key \<Rightarrow>
          if key = [] then None
          else (case embeddings_create env key generated of
                  Inl e \<Rightarrow> None
                | Inr gen_embedding \<Rightarrow>
                    (case embeddings_create env key reference of
                       Inl e \<Rightarrow> None
                     | Inr ref_embedding \<Rightarrow>
                         (case cosine_similarity env gen_embedding ref_embedding of
                            Inl e \<Rightarrow> None
                          | Inr similarity \<Rightarrow> Some similarity))))"

text \<open>
  \<open>_calculate_overall_score\<close>: the parallel lists \<open>scores\<close> and \<open>weights\<close> are one list of
  pairs here. The weights 0.25 and 0.50 are exact floats.
\<close>

definition scores_weights ::
  "pyfloat option \<Rightarrow> rouge_dict \<Rightarrow> pyfloat option \<Rightarrow> (pyfloat \<times> pyfloat) list" where
  "scores_weights bleu rouge semantic =
     (case bleu of None \<Rightarrow> [] | Some b \<Rightarrow> [(b, Fin (25 / 100))]) @
     (case dict_get0 rouge ''rougeL_f1'' of None \<Rightarrow> [] | Some rl \<Rightarrow> [(rl, Fin (25 / 100))]) @
     (case semantic of None \<Rightarrow> [] | Some sv \<Rightarrow> [(sv, Fin (50 / 100))])"

text \<open>\<open>[w / total_weight for w in weights]\<close>: the first failing division raises.\<close>

fun normalize_weights :: "pyfloat list \<Rightarrow> pyfloat \<Rightarrow> py_error + pyfloat list" where
  "normalize_weights [] total_weight = Inr []"
| "normalize_weights (w # ws) total_weight =
     (case py_truediv w total_weight of
        Inl e \<Rightarrow> Inl e
      | Inr nw \<Rightarrow>
          (case normalize_weights ws total_weight of
             Inl e \<Rightarrow> Inl e
           | Inr nws \<Rightarrow> Inr (nw # nws)))"

text \<open>An exception inside the function is logged and \<open>None\<close> is returned.\<close>

definition calculate_overall_score ::
  "eval_env \<Rightarrow> pyfloat option \<Rightarrow> rouge_dict \<Rightarrow> pyfloat option \<Rightarrow> pyfloat option" where
  "calculate_overall_score env bleu rouge semantic =
     (let sw = scores_weights bleu rouge semantic
      in if sw = [] then None
         else (let total_weight = builtin_sum env (map snd sw)
               in case normalize_weights (map snd sw) total_weight of
                    Inl e \<Rightarrow> None
                  | Inr normalized_weights \<Rightarrow>
                      Some (builtin_sum env
                              (map (\<lambda>(sv, w). py_mul sv w)
                                 (zip (map fst sw) normalized_weights)))))"

text \<open>\<open>round(rouge_scores.get(key, 0), 4)\<close>, which raises on \<open>None\<close>.\<close>

definition round_rouge :: "rouge_dict \<Rightarrow> string \<Rightarrow> py_error + pyfloat" where
  "round_rouge d key =
     (case dict_get0 d key of None \<Rightarrow> Inl TypeError | Some v \<Rightarrow> Inr (py_round v 4))"

text \<open>The body of the \<open>try\<close> block of \<open>evaluate\<close>.\<close>

definition evaluate_try :: "eval_env \<Rightarrow> pyval \<Rightarrow> pyval \<Rightarrow> py_error + evaluation_metrics" where
  "evaluate_try env generated_answer ground_truth =
     (case normalize_text generated_answer of
        Inl e \<Rightarrow> Inl e
      | Inr gen_clean \<Rightarrow>
          (case normalize_text ground_truth of
             Inl e \<Rightarrow> Inl e
           | Inr gt_clean \<Rightarrow>
               (let bleu = calculate_bleu env gen_clean gt_clean;
                    rouge_scores = calculate_rouge env gen_clean gt_clean;
                    semantic_sim = calculate_semantic_similarity env gen_clean gt_clean;
                    overall_v = calculate_overall_score env bleu rouge_scores semantic_sim
                in case round_rouge rouge_scores ''rouge1_f1'' of
                     Inl e \<Rightarrow> Inl e
                   | Inr r1 \<Rightarrow>
                       (case round_rouge rouge_scores ''rouge2_f1'' of
                          Inl e \<Rightarrow> Inl e
                        | Inr r2 \<Rightarrow>
                            (case round_rouge rouge_scores ''rougeL_f1'' of
                               Inl e \<Rightarrow> Inl e
                             | Inr rl \<Rightarrow>
                                 Inr \<lparr> bleu_score = map_option (\<lambda>v. py_round v 4) bleu,
                                       rouge_1_f1 = Some r1,
                                       rouge_2_f1 = Some r2,
                                       rouge_l_f1 = Some rl,
                                       semantic_similarity = map_option (\<lambda>v. py_round v 4) semantic_sim,
                                       overall_score = map_option (\<lambda>v. py_round v 4) overall_v \<rparr>)))))"

text \<open>\<open>EvaluationMetrics()\<close>: every field takes its default \<open>None\<close>.\<close>

definition empty_metrics :: evaluation_metrics where
  "empty_metrics =
     \<lparr> bleu_score = None, rouge_1_f1 = None, rouge_2_f1 = None, rouge_l_f1 = None,
       semantic_similarity = None, overall_score = None \<rparr>"

definition evaluate :: "eval_env \<Rightarrow> pyval \<Rightarrow> pyval \<Rightarrow> evaluation_metrics" where
  "evaluate env generated_answer ground_truth =
     (case evaluate_try env generated_answer ground_truth of
        Inl e \<Rightarrow> empty_metrics
      | Inr metrics \<Rightarrow> metrics)"

section \<open>Predicates and sample inputs used by the theorems\<close>

definition span_ok :: "chunk \<Rightarrow> bool" where
  "span_ok c = (0 \<le> char_offset_start c \<and>
                char_offset_end c - char_offset_start c = int (length (chunk_text c)))"

text \<open>
  A two-page PDF whose second page has no text layer and is recognised from its image,
  a text file, and a splitter that hands back a blank piece before two pieces of text.
\<close>

definition sample_doc_env :: doc_env where
  "sample_doc_env =
     \<lparr> split_text = (\<lambda>s. [''  '', ''Revenue grew.'', ''Net income'']),
       sha256_hexdigest = (\<lambda>s. ''9f86d081884c7d659a2feaa0c55ad015''),
       fitz_open =
         (\<lambda>p. if p = ''scan.pdf''
               then Inr [\<lparr> get_text = ''Revenue grew. Costs fell.'', image_to_string = Inr [] \<rparr>,
                         \<lparr> get_text = '' '', image_to_string = Inr ''Net income was 5M.'' \<rparr>]
               else Inl (LibraryError ''cannot open broken document'')),
       docx_paragraphs =
         (\<lambda>p. if p = ''memo.docx'' then Inr [''Revenue grew.'', '' '', ''Net income'']
               else Inl (LibraryError ''Package not found'')),
       read_file =
         (\<lambda>p. if p = ''missing.txt'' then Inl (LibraryError ''No such file or directory'')
               else Inr ''Revenue grew. Costs fell.'') \<rparr>"

text \<open>
  The splitter the processor constructs (RecursiveCharacterTextSplitter with its default
  \<open>strip_whitespace\<close>) strips every piece and drops the pieces left empty, so none of its
  pieces is blank. \<open>line_pieces\<close> stands for it on short documents: the lines of the text
  that are not blank.
\<close>

definition never_blank :: "doc_env \<Rightarrow> bool" where
  "never_blank env = (\<forall>t. \<forall>piece \<in> set (split_text env t). py_strip piece \<noteq> [])"

definition line_pieces :: "string \<Rightarrow> string list" where
  "line_pieces t = filter (\<lambda>piece. py_strip piece \<noteq> []) (split_on (CHR 0x0A) [] t)"

definition line_doc_env :: doc_env where
  "line_doc_env =
     \<lparr> split_text = line_pieces,
       sha256_hexdigest = (\<lambda>s. ''9f86d081884c7d659a2feaa0c55ad015''),
       fitz_open =
         (\<lambda>p. Inr [\<lparr> get_text = ''Revenue grew.'' @ [CHR 0x0A] @ ''Costs fell.'',
                      image_to_string = Inr [] \<rparr>,
                    \<lparr> get_text = '' '', image_to_string = Inr ''Net income was 5M.'' \<rparr>]),
       docx_paragraphs = (\<lambda>p. Inr [''Revenue grew.'', '' '', ''Costs fell.'']),
       read_file =
         (\<lambda>p. Inr (''Revenue grew.'' @ [CHR 0x0A] @ ''  '' @ [CHR 0x0A] @ ''Costs fell.'')) \<rparr>"

text \<open>
  Three ranked retrieval results, numpy's mean on a list whose partial sums are exact, a
  model that grades with the text \<open>0.8\<close> and answers citing the third context before the
  first, and an unreachable model.
\<close>

definition sample_contexts :: "retrieval_result list" where
  "sample_contexts =
     [\<lparr> r_vector_id = Some ''v1'', r_text = Some ''Revenue grew 10%.'',
        r_metadata = Some \<lparr> md_document_id = Some ''d1'', md_chunk_id = Some ''c1'',
                            md_page_number = Some 1, md_chunk_index = Some 0 \<rparr>,
        r_score = Some (Fin 1), r_chunk_id = Some ''c1'' \<rparr>,
      \<lparr> r_vector_id = Some ''v2'', r_text = Some ''Headcount was flat.'',
        r_metadata = Some \<lparr> md_document_id = Some ''d1'', md_chunk_id = Some ''c2'',
                            md_page_number = Some 1, md_chunk_index = Some 1 \<rparr>,
        r_score = Some (Fin 1), r_chunk_id = Some ''c2'' \<rparr>,
      \<lparr> r_vector_id = Some ''v3'', r_text = Some ''Costs fell 5%.'',
        r_metadata = Some \<lparr> md_document_id = Some ''d2'', md_chunk_id = Some ''c3'',
                            md_page_number = Some 2, md_chunk_index = Some 0 \<rparr>,
        r_score = Some (Fin (1 / 2)), r_chunk_id = Some ''c3'' \<rparr>]"

definition sample_mean :: "pyfloat list \<Rightarrow> pyfloat" where
  "sample_mean xs =
     (case py_truediv (foldl py_add (Fin 0) xs) (Fin (of_nat (length xs))) of
        Inl e \<Rightarrow> NaN
      | Inr m \<Rightarrow> m)"

definition sample_numpy :: numpy where
  "sample_numpy = Inr sample_mean"

definition missing_numpy :: numpy where
  "missing_numpy = Inl (LibraryError ''No module named numpy'')"

definition sample_llm :: llm_env where
  "sample_llm =
     \<lparr> chat_create =
         (\<lambda>api_key model messages.
            if model = ''gpt-4o-mini'' then Inr (Some '' 0.8 '')
            else Inr (Some ''Costs fell [3] while revenue grew [1].'')),
       float_of_str = (\<lambda>s. if s = ''0.8'' then Some (to_double (8 / 10)) else None) \<rparr>"

definition unreachable_llm :: llm_env where
  "unreachable_llm =
     \<lparr> chat_create = (\<lambda>api_key model messages. Inl (LibraryError ''Connection error.'')),
       float_of_str = (\<lambda>s. None) \<rparr>"






text \<open>
  A model whose reply to every request is the text \<open>nan\<close>, which \<open>float\<close> accepts, and a
  retrieval result without the key \<open>text\<close>.
\<close>

definition nan_llm :: llm_env where
  "nan_llm =
     \<lparr> chat_create = (\<lambda>api_key model messages. Inr (Some ''nan'')),
       float_of_str = (\<lambda>s. if s = ''nan'' then Some NaN else None) \<rparr>"

definition untexted_result :: retrieval_result where
  "untexted_result =
     \<lparr> r_vector_id = Some ''v9'', r_text = None, r_metadata = None,
       r_score = Some (Fin (1 / 4)), r_chunk_id = None \<rparr>"

text \<open>
  What the index replies to a query with one embedding: one row of ids and, aligned with
  it, one row each of texts, metadata and distances.
\<close>

definition aligned_reply ::
  "query_result \<Rightarrow> string list \<Rightarrow> string list \<Rightarrow> metadata list \<Rightarrow> pyfloat list \<Rightarrow> bool" where
  "aligned_reply results row docs mds ds =
     (ids results = [row] \<and> documents results = Some [docs] \<and>
      metadatas results = Some [mds] \<and> distances results = Some [ds] \<and>
      length docs = length row \<and> length mds = length row \<and> length ds = length row)"

text \<open>
  An index holding one entry pointing the same way as the query vector (cosine distance
  0) and one pointing the opposite way (cosine distance 2); any other namespace is empty.
\<close>

definition sample_chroma :: chroma_env where
  "sample_chroma =
     \<lparr> get_or_create_collection = (\<lambda>name. Inr ()),
       collection_query =
         (\<lambda>name query_embedding n_results.
            if name = ''t_11111111_p_22222222''
            then Inr \<lparr> ids = [[''v1'', ''v2'']],
                       documents = Some [[''Revenue grew 10%.'', ''Costs fell 5%.'']],
                       metadatas =
                         Some [[\<lparr> md_document_id = Some ''d1'', md_chunk_id = Some ''c1'',
                                   md_page_number = Some 1, md_chunk_index = Some 0 \<rparr>,
                                 \<lparr> md_document_id = Some ''d2'', md_chunk_id = Some ''c3'',
                                   md_page_number = Some 2, md_chunk_index = Some 0 \<rparr>]],
                       distances = Some [[Fin 0, Fin 2]] \<rparr>
            else Inr \<lparr> ids = [[]], documents = Some [[]], metadatas = Some [[]],
                       distances = Some [[]] \<rparr>) \<rparr>"

text \<open>
  An evaluation environment in which nothing can be computed (the tokenizer data and the
  ROUGE package are missing and no API key is set), and one in which only the ROUGE
  package is missing: BLEU is 0.8 and the semantic similarity 0.6.
\<close>

definition offline_eval_env :: eval_env where
  "offline_eval_env =
     \<lparr> word_tokenize = (\<lambda>s. Inl (LibraryError ''Resource punkt not found'')),
       sentence_bleu = (\<lambda>refs hyp. Inl (LibraryError ''unreachable'')),
       rouge_score = (\<lambda>reference generated. Inl (LibraryError ''No module named rouge_score'')),
       getenv_api_key = None,
       embeddings_create = (\<lambda>key input. Inl (LibraryError ''Connection error'')),
       cosine_similarity = (\<lambda>a b. Inl (LibraryError ''unreachable'')),
       builtin_sum = foldl py_add (Fin 0) \<rparr>"

definition rouge_missing_env :: eval_env where
  "rouge_missing_env =
     \<lparr> word_tokenize = (\<lambda>s. Inr (py_split s)),
       sentence_bleu = (\<lambda>refs hyp. Inr (to_double (8 / 10))),
       rouge_score = (\<lambda>reference generated. Inl (LibraryError ''No module named rouge_score'')),
       getenv_api_key = Some ''sk-test'',
       embeddings_create = (\<lambda>key input. Inr [Fin 1, Fin 0]),
       cosine_similarity = (\<lambda>a b. Inr (to_double (6 / 10))),
       builtin_sum = foldl py_add (Fin 0) \<rparr>"

section \<open>Verified properties\<close>

subsection \<open>Rounding to the nearest double\<close>

text \<open>
  A number of magnitude at most 1 rounds to a double of magnitude at most 1, so a cosine
  distance between 0 and 2 gives a score between \<open>-1\<close> and 1.
\<close>

lemma log2_down_nonpos: "log2_down x \<le> 0"
proof (induction x rule: log2_down.induct)
  case (1 x)
  show ?case
  proof (cases "x \<le> 0 \<or> 1 \<le> x")
    case True
    then show ?thesis by (subst log2_down.simps) simp
  next
    case False
    with "1.IH" have "log2_down (2 * x) \<le> 0" by simp
    with False show ?thesis by (subst log2_down.simps) simp
  qed
qed

lemma floor_log2_unit: "x \<le> 1 \<Longrightarrow> floor_log2 x \<le> 0"
proof -
  assume x: "x \<le> 1"
  show ?thesis
  proof (cases "1 \<le> x")
    case True
    with x have "x = 1" by simp
    then show ?thesis by (simp add: floor_log2_def log2_up.simps)
  next
    case False
    then show ?thesis by (simp add: floor_log2_def log2_down_nonpos)
  qed
qed

lemma round_half_even_le: "x \<le> of_int n \<Longrightarrow> round_half_even x \<le> n"
proof -
  assume le: "x \<le> of_int n"
  then have fl: "\<lfloor>x\<rfloor> \<le> n" by (simp add: floor_le_iff)
  show ?thesis
  proof (cases "\<lfloor>x\<rfloor> = n")
    case True
    then have "x - of_int \<lfloor>x\<rfloor> \<le> 0" using le by simp
    then show ?thesis using True by (simp add: round_half_even_def Let_def)
  next
    case False
    with fl have "\<lfloor>x\<rfloor> + 1 \<le> n" by simp
    then show ?thesis by (simp add: round_half_even_def Let_def)
  qed
qed

lemma round_half_even_nonneg: "0 \<le> x \<Longrightarrow> 0 \<le> round_half_even x"
proof -
  assume "0 \<le> x"
  then have "0 \<le> \<lfloor>x\<rfloor>" by simp
  then show ?thesis by (simp add: round_half_even_def Let_def)
qed

lemma to_double_unit:
  assumes "\<bar>x\<bar> \<le> 1"
  shows "\<exists>y. to_double x = Fin y \<and> \<bar>y\<bar> \<le> 1"
proof (cases "x = 0")
  case True
  then show ?thesis by (simp add: to_double_def)
next
  case False
  define a where "a = \<bar>x\<bar>"
  define e where "e = max (floor_log2 a) (- 1022)"
  define k where "k = nat (52 - e)"
  define m where "m = round_half_even (a / pow2 (e - 52))"
  have a: "0 < a" "a \<le> 1" using False assms by (simp_all add: a_def)
  have e: "e \<le> 0" "- 1022 \<le> e"
    using floor_log2_unit [OF a(2)] by (simp_all add: e_def)
  have ulp: "pow2 (e - 52) = 1 / 2 ^ k"
    using e by (simp add: pow2_def k_def)
  have arg: "a / pow2 (e - 52) = a * 2 ^ k" by (simp add: ulp)
  have "a * 2 ^ k \<le> of_int (2 ^ k)" using a by simp
  then have m_le: "m \<le> 2 ^ k" unfolding m_def arg by (rule round_half_even_le)
  have m_ge: "0 \<le> m" unfolding m_def arg using a by (intro round_half_even_nonneg) simp
  have mag: "\<bar>of_int m * pow2 (e - 52)\<bar> \<le> 1"
  proof -
    have "of_int m * pow2 (e - 52) = (of_int m :: rat) / 2 ^ k" by (simp add: ulp)
    moreover have "(of_int m :: rat) \<le> 2 ^ k" using m_le by (metis of_int_le_iff of_int_numeral of_int_power)
    moreover have "(0 :: rat) \<le> of_int m" using m_ge by simp
    ultimately show ?thesis by (simp add: divide_le_eq_1)
  qed
  have no_overflow: "\<not> (1024 \<le> e \<or> (e = 1023 \<and> m = 2 ^ 53))" using e by simp
  have "to_double x = Fin (if 0 < x then of_int m * pow2 (e - 52) else - (of_int m * pow2 (e - 52)))"
    using False no_overflow
    by (simp add: to_double_def Let_def a_def [symmetric] e_def [symmetric] m_def [symmetric])
  with mag show ?thesis by auto
qed

lemma one_minus_zero: "py_sub (Fin 1) (Fin 0) = Fin 1"
  by code_simp

lemma one_minus_two: "py_sub (Fin 1) (Fin 2) = Fin (- 1)"
  by code_simp

lemma py_sub_Fin: "py_sub (Fin a) (Fin b) = to_double (a - b)"
  by (simp add: py_sub_def)

lemma cosine_score_range:
  assumes "0 \<le> d" and "d \<le> 2"
  shows "\<exists>s. py_sub (Fin 1) (Fin d) = Fin s \<and> - 1 \<le> s \<and> s \<le> 1"
proof -
  have "\<bar>1 - d\<bar> \<le> 1" using assms by simp
  from to_double_unit [OF this] show ?thesis
    by (auto simp: py_sub_Fin abs_le_iff)
qed

text \<open>
  The arithmetic is that of doubles, not of exact decimals: \<open>round(0.4445, 3)\<close> is 0.445
  because the double nearest to 0.4445 lies above it, and the composite of the mean 0.15,
  the fraction 0.0 and two grades 0.8 is the double below 0.5175, which rounds to 0.517.
\<close>

lemma double_rounding_examples:
  "py_round (to_double (4445 / 10000)) 3 = to_double (445 / 1000)"
  "py_round
     (py_add
        (py_add
           (py_add (py_mul (to_double (25 / 100)) (to_double (15 / 100)))
                   (py_mul (to_double (15 / 100)) (Fin 0)))
           (py_mul (to_double (35 / 100)) (to_double (8 / 10))))
        (py_mul (to_double (25 / 100)) (to_double (8 / 10))))
     3 = to_double (517 / 1000)"
  "to_double (445 / 1000) \<noteq> to_double (444 / 1000)"
  "to_double (517 / 1000) \<noteq> to_double (518 / 1000)"
  by code_simp+

subsection \<open>Evaluating the sample inputs\<close>

lemmas doc_eval =
  parse_document_def path_suffix_def path_name_def py_lower_def py_lower_char_def
  parse_text_def parse_pdf_def parse_docx_def chunk_dict_def py_strip_def py_isspace_def
  py_find_def py_split_def ocr_page_def Let_def sample_doc_env_def upper_chars_def
  lower_chars_def

lemma sample_pdf_chunks:
  "parse_document sample_doc_env ''scan.pdf'' =
     Inr [\<lparr>chunk_index = 0, chunk_text = ''Revenue grew.'', page_number = Some 1,
            char_offset_start = 0, char_offset_end = 13,
            content_hash = ''9f86d081884c7d65'', token_count = 2\<rparr>,
          \<lparr>chunk_index = 1, chunk_text = ''Net income'', page_number = Some 1,
            char_offset_start = 0, char_offset_end = 10,
            content_hash = ''9f86d081884c7d65'', token_count = 2\<rparr>,
          \<lparr>chunk_index = 2, chunk_text = ''Revenue grew.'', page_number = Some 2,
            char_offset_start = 0, char_offset_end = 13,
            content_hash = ''9f86d081884c7d65'', token_count = 2\<rparr>,
          \<lparr>chunk_index = 3, chunk_text = ''Net income'', page_number = Some 2,
            char_offset_start = 0, char_offset_end = 10,
            content_hash = ''9f86d081884c7d65'', token_count = 2\<rparr>]"
  by (simp add: doc_eval)

lemma sample_not_found: "py_find ''Revenue grew. Costs fell.'' ''Net income'' < 0"
  by (simp add: py_find_def)

subsection \<open>Character offsets of the chunks\<close>

lemma chunk_dict_span: "span_ok (chunk_dict env idx split source page)"
  by (simp add: span_ok_def chunk_dict_def Let_def)

lemma pdf_split_loop_span:
  "list_all span_ok (fst st) \<Longrightarrow>
   list_all span_ok (fst (pdf_split_loop env page_num page_text splits st))"
proof (induction splits arbitrary: st)
  case Nil
  then show ?case by simp
next
  case (Cons split splits)
  obtain acc idx where st: "st = (acc, idx)" by (cases st)
  show ?case using Cons.prems
    by (auto simp: st chunk_dict_span intro!: Cons.IH)
qed

lemma pdf_page_loop_span:
  "list_all span_ok (fst st) \<Longrightarrow>
   list_all span_ok (fst (pdf_page_loop env pages page_num st))"
proof (induction pages arbitrary: page_num st)
  case Nil
  then show ?case by simp
next
  case (Cons page pages)
  then show ?case
    by (auto simp: Let_def intro!: Cons.IH pdf_split_loop_span)
qed

lemma enumerate_loop_span:
  "list_all span_ok acc \<Longrightarrow> list_all span_ok (enumerate_loop env full_text idx splits acc)"
  by (induction splits arbitrary: idx acc) (auto simp: chunk_dict_span)

lemma parse_document_span:
  assumes "parse_document env file_path = Inr chunks"
  shows "list_all span_ok chunks"
proof -
  have pdf: "parse_pdf env file_path = Inr chunks \<Longrightarrow> list_all span_ok chunks"
    using pdf_page_loop_span [of "([], 0)" env _ 0]
    by (auto simp: parse_pdf_def split: sum.splits)
  have docx: "parse_docx env file_path = Inr chunks \<Longrightarrow> list_all span_ok chunks"
    using enumerate_loop_span [of "[]" env _ 0]
    by (auto simp: parse_docx_def Let_def split: sum.splits)
  have plain: "parse_text env file_path = Inr chunks \<Longrightarrow> list_all span_ok chunks"
    using enumerate_loop_span [of "[]" env _ 0]
    by (auto simp: parse_text_def split: sum.splits)
  show ?thesis
    using assms pdf docx plain
    by (auto simp: parse_document_def Let_def split: if_splits)
qed

text \<open>
  Claim C8. Every chunk returned by \<open>parse_document\<close>, whichever of the three paths
  produced it, has a start offset that is not negative and an end offset that lies the
  length of the chunk's text after it. When \<open>find\<close> does not locate the chunk's text in
  its source (the result \<open>-1\<close>), the span is from 0 to the length of the text.
\<close>

theorem chunk_offsets_span:
  "(parse_document env file_path = Inr chunks \<longrightarrow>
      (\<forall>c \<in> set chunks.
         0 \<le> char_offset_start c \<and>
         char_offset_end c - char_offset_start c = int (length (chunk_text c)))) \<and>
   (py_find source split < 0 \<longrightarrow>
      char_offset_start (chunk_dict env idx split source page) = 0 \<and>
      char_offset_end (chunk_dict env idx split source page) = int (length split))"
proof (intro conjI impI)
  assume "parse_document env file_path = Inr chunks"
  then have "list_all span_ok chunks" by (rule parse_document_span)
  then show "\<forall>c \<in> set chunks.
         0 \<le> char_offset_start c \<and>
         char_offset_end c - char_offset_start c = int (length (chunk_text c))"
    by (simp add: list_all_iff span_ok_def)
next
  assume "py_find source split < 0"
  then show "char_offset_start (chunk_dict env idx split source page) = 0"
    by (simp add: chunk_dict_def Let_def)
next
  assume "py_find source split < 0"
  then show "char_offset_end (chunk_dict env idx split source page) = int (length split)"
    by (simp add: chunk_dict_def Let_def)
qed

theorem chunk_offsets_span_witness:
  "parse_document sample_doc_env ''scan.pdf'' =
     Inr [\<lparr>chunk_index = 0, chunk_text = ''Revenue grew.'', page_number = Some 1,
            char_offset_start = 0, char_offset_end = 13,
            content_hash = ''9f86d081884c7d65'', token_count = 2\<rparr>,
          \<lparr>chunk_index = 1, chunk_text = ''Net income'', page_number = Some 1,
            char_offset_start = 0, char_offset_end = 10,
            content_hash = ''9f86d081884c7d65'', token_count = 2\<rparr>,
          \<lparr>chunk_index = 2, chunk_text = ''Revenue grew.'', page_number = Some 2,
            char_offset_start = 0, char_offset_end = 13,
            content_hash = ''9f86d081884c7d65'', token_count = 2\<rparr>,
          \<lparr>chunk_index = 3, chunk_text = ''Net income'', page_number = Some 2,
            char_offset_start = 0, char_offset_end = 10,
            content_hash = ''9f86d081884c7d65'', token_count = 2\<rparr>] \<and>
   py_find ''Revenue grew. Costs fell.'' ''Net income'' < 0 \<and>
   char_offset_start
     (chunk_dict sample_doc_env 1 ''Net income'' ''Revenue grew. Costs fell.'' (Some 1)) = 0 \<and>
   char_offset_end
     (chunk_dict sample_doc_env 1 ''Net income'' ''Revenue grew. Costs fell.'' (Some 1)) = 10"
  using chunk_offsets_span [of sample_doc_env "''scan.pdf''" _ "''Revenue grew. Costs fell.''"
                              "''Net income''" 1 "Some 1"]
        sample_pdf_chunks sample_not_found
  by simp

subsection \<open>Chunk ordinals\<close>

text \<open>
  The PDF path numbers its chunks with a counter of its own, advanced only when a chunk
  is appended, so its ordinals are always \<open>0, 1, ..., n - 1\<close>.
\<close>

lemma pdf_split_loop_dense:
  "map chunk_index (fst st) = [0..<snd st] \<Longrightarrow>
   map chunk_index (fst (pdf_split_loop env page_num page_text splits st)) =
     [0..<snd (pdf_split_loop env page_num page_text splits st)]"
proof (induction splits arbitrary: st)
  case Nil
  then show ?case by simp
next
  case (Cons split splits)
  obtain acc idx where st: "st = (acc, idx)" by (cases st)
  have step: "map chunk_index (acc @ [chunk_dict env idx split page_text (Some (page_num + 1))])
                = [0..<idx + 1]"
    using Cons.prems by (simp add: st chunk_dict_def Let_def)
  show ?case
  proof (cases "py_strip split = []")
    case True
    then show ?thesis using Cons.IH [of "(acc, idx)"] Cons.prems by (simp add: st)
  next
    case False
    then show ?thesis
      using Cons.IH [of "(acc @ [chunk_dict env idx split page_text (Some (page_num + 1))], idx + 1)"] step
      by (simp add: st)
  qed
qed

lemma pdf_page_loop_dense:
  "map chunk_index (fst st) = [0..<snd st] \<Longrightarrow>
   map chunk_index (fst (pdf_page_loop env pages page_num st)) =
     [0..<snd (pdf_page_loop env pages page_num st)]"
proof (induction pages arbitrary: page_num st)
  case Nil
  then show ?case by simp
next
  case (Cons page pages)
  then show ?case
    by (auto simp: Let_def intro!: Cons.IH pdf_split_loop_dense)
qed

lemma parse_pdf_dense:
  assumes "parse_pdf env file_path = Inr chunks"
  shows "map chunk_index chunks = [0..<length chunks]"
proof -
  from assms obtain doc where
    chunks: "chunks = fst (pdf_page_loop env doc 0 ([], 0))"
    by (auto simp: parse_pdf_def split: sum.splits)
  have "map chunk_index chunks = [0..<snd (pdf_page_loop env doc 0 ([], 0))]"
    unfolding chunks by (rule pdf_page_loop_dense) simp
  moreover from this have "length chunks = snd (pdf_page_loop env doc 0 ([], 0))"
    by (metis length_map length_upt minus_nat.diff_0)
  ultimately show ?thesis by simp
qed

lemma enumerate_loop_indices:
  "map chunk_index (enumerate_loop env full_text idx splits acc) =
     map chunk_index acc @
     map fst (filter (\<lambda>(i, split). py_strip split \<noteq> []) (zip [idx..<idx + length splits] splits))"
proof (induction splits arbitrary: idx acc)
  case Nil
  then show ?case by simp
next
  case (Cons split splits)
  have upt: "[idx..<idx + length (split # splits)] = idx # [idx + 1..<idx + 1 + length splits]"
    by (simp add: upt_rec)
  show ?case
    unfolding upt using Cons.IH [of "idx + 1"]
    by (simp add: chunk_dict_def Let_def)
qed

lemma enumerate_loop_dense:
  assumes "\<forall>split \<in> set splits. py_strip split \<noteq> []"
  shows "map chunk_index (enumerate_loop env full_text 0 splits []) = [0..<length splits]"
proof -
  have "filter (\<lambda>(i, split). py_strip split \<noteq> []) (zip [0..<0 + length splits] splits)
          = zip [0..<0 + length splits] splits"
    using assms by (auto simp: filter_id_conv dest: set_zip_rightD)
  then show ?thesis
    by (simp add: enumerate_loop_indices)
qed

text \<open>
  The DOCX and plain-text paths number a chunk by the position of its piece in the
  splitter's output and skip blank pieces; the splitter never returning a blank piece,
  no position is skipped.
\<close>

lemma never_blankD:
  "never_blank env \<Longrightarrow> \<forall>split \<in> set (split_text env t). py_strip split \<noteq> []"
  by (simp add: never_blank_def)

lemma parse_docx_dense:
  assumes "never_blank env" and "parse_docx env file_path = Inr chunks"
  shows "map chunk_index chunks = [0..<length chunks]"
proof -
  from assms(2) obtain full_text where
    chunks: "chunks = enumerate_loop env full_text 0 (split_text env full_text) []"
    by (auto simp: parse_docx_def Let_def split: sum.splits)
  have "map chunk_index chunks = [0..<length (split_text env full_text)]"
    unfolding chunks by (rule enumerate_loop_dense) (rule never_blankD [OF assms(1)])
  moreover from this have "length chunks = length (split_text env full_text)"
    by (metis length_map length_upt minus_nat.diff_0)
  ultimately show ?thesis by simp
qed

lemma parse_text_dense:
  assumes "never_blank env" and "parse_text env file_path = Inr chunks"
  shows "map chunk_index chunks = [0..<length chunks]"
proof -
  from assms(2) obtain full_text where
    chunks: "chunks = enumerate_loop env full_text 0 (split_text env full_text) []"
    by (auto simp: parse_text_def split: sum.splits)
  have "map chunk_index chunks = [0..<length (split_text env full_text)]"
    unfolding chunks by (rule enumerate_loop_dense) (rule never_blankD [OF assms(1)])
  moreover from this have "length chunks = length (split_text env full_text)"
    by (metis length_map length_upt minus_nat.diff_0)
  ultimately show ?thesis by simp
qed

text \<open>
  Claim C2. For every document that \<open>parse_document\<close> parses, through any of the three
  format paths, the ordinals of the returned chunks are \<open>0, 1, ..., n - 1\<close> in this order,
  where \<open>n\<close> is the number of chunks: exactly the set \<open>{0, ..., n - 1}\<close>, without repeats.
  The splitter is the one the processor constructs, which returns no blank piece.
\<close>

theorem chunk_ordinals_dense:
  assumes "never_blank env" and "parse_document env file_path = Inr chunks"
  shows "map chunk_index chunks = [0..<length chunks] \<and>
         chunk_index ` set chunks = {0..<length chunks} \<and>
         distinct (map chunk_index chunks)"
proof -
  have dense: "map chunk_index chunks = [0..<length chunks]"
  proof (cases "chunks = []")
    case True
    then show ?thesis by simp
  next
    case False
    with assms(2) consider
        "parse_pdf env file_path = Inr chunks"
      | "parse_docx env file_path = Inr chunks"
      | "parse_text env file_path = Inr chunks"
      by (auto simp: parse_document_def Let_def split: if_splits)
    then show ?thesis
    proof cases
      case 1
      then show ?thesis by (rule parse_pdf_dense)
    next
      case 2
      with assms(1) show ?thesis by (rule parse_docx_dense)
    next
      case 3
      with assms(1) show ?thesis by (rule parse_text_dense)
    qed
  qed
  have "set (map chunk_index chunks) = {0..<length chunks}"
    unfolding dense [symmetric] by (subst dense) simp
  then have image: "chunk_index ` set chunks = {0..<length chunks}" by simp
  have "distinct [0..<length chunks]" by simp
  then have "distinct (map chunk_index chunks)" by (simp only: dense)
  with dense image show ?thesis by simp
qed

lemmas line_eval =
  parse_document_def path_suffix_def path_name_def py_lower_def py_lower_char_def
  parse_text_def parse_pdf_def parse_docx_def chunk_dict_def py_strip_def py_isspace_def
  py_find_def py_split_def ocr_page_def Let_def line_doc_env_def line_pieces_def
  upper_chars_def lower_chars_def

lemma line_doc_env_never_blank: "never_blank line_doc_env"
  by (simp add: never_blank_def line_doc_env_def line_pieces_def)

lemma line_text_chunks:
  "parse_document line_doc_env ''notes.txt'' =
     Inr [\<lparr>chunk_index = 0, chunk_text = ''Revenue grew.'', page_number = None,
            char_offset_start = 0, char_offset_end = 13,
            content_hash = ''9f86d081884c7d65'', token_count = 2\<rparr>,
          \<lparr>chunk_index = 1, chunk_text = ''Costs fell.'', page_number = None,
            char_offset_start = 17, char_offset_end = 28,
            content_hash = ''9f86d081884c7d65'', token_count = 2\<rparr>]"
  by (simp add: line_eval)

lemma line_docx_chunks:
  "parse_document line_doc_env ''memo.docx'' =
     Inr [\<lparr>chunk_index = 0, chunk_text = ''Revenue grew.'', page_number = None,
            char_offset_start = 0, char_offset_end = 13,
            content_hash = ''9f86d081884c7d65'', token_count = 2\<rparr>,
          \<lparr>chunk_index = 1, chunk_text = ''Costs fell.'', page_number = None,
            char_offset_start = 15, char_offset_end = 26,
            content_hash = ''9f86d081884c7d65'', token_count = 2\<rparr>]"
  by (simp add: line_eval)

lemma line_pdf_chunks:
  "parse_document line_doc_env ''scan.pdf'' =
     Inr [\<lparr>chunk_index = 0, chunk_text = ''Revenue grew.'', page_number = Some 1,
            char_offset_start = 0, char_offset_end = 13,
            content_hash = ''9f86d081884c7d65'', token_count = 2\<rparr>,
          \<lparr>chunk_index = 1, chunk_text = ''Costs fell.'', page_number = Some 1,
            char_offset_start = 14, char_offset_end = 25,
            content_hash = ''9f86d081884c7d65'', token_count = 2\<rparr>,
          \<lparr>chunk_index = 2, chunk_text = ''Net income was 5M.'', page_number = Some 2,
            char_offset_start = 0, char_offset_end = 18,
            content_hash = ''9f86d081884c7d65'', token_count = 4\<rparr>]"
  by (simp add: line_eval)

theorem chunk_ordinals_dense_witness:
  "never_blank line_doc_env \<and>
   parse_document line_doc_env ''scan.pdf'' =
     Inr [\<lparr>chunk_index = 0, chunk_text = ''Revenue grew.'', page_number = Some 1,
            char_offset_start = 0, char_offset_end = 13,
            content_hash = ''9f86d081884c7d65'', token_count = 2\<rparr>,
          \<lparr>chunk_index = 1, chunk_text = ''Costs fell.'', page_number = Some 1,
            char_offset_start = 14, char_offset_end = 25,
            content_hash = ''9f86d081884c7d65'', token_count = 2\<rparr>,
          \<lparr>chunk_index = 2, chunk_text = ''Net income was 5M.'', page_number = Some 2,
            char_offset_start = 0, char_offset_end = 18,
            content_hash = ''9f86d081884c7d65'', token_count = 4\<rparr>] \<and>
   parse_document line_doc_env ''notes.txt'' =
     Inr [\<lparr>chunk_index = 0, chunk_text = ''Revenue grew.'', page_number = None,
            char_offset_start = 0, char_offset_end = 13,
            content_hash = ''9f86d081884c7d65'', token_count = 2\<rparr>,
          \<lparr>chunk_index = 1, chunk_text = ''Costs fell.'', page_number = None,
            char_offset_start = 17, char_offset_end = 28,
            content_hash = ''9f86d081884c7d65'', token_count = 2\<rparr>] \<and>
   parse_document line_doc_env ''memo.docx'' =
     Inr [\<lparr>chunk_index = 0, chunk_text = ''Revenue grew.'', page_number = None,
            char_offset_start = 0, char_offset_end = 13,
            content_hash = ''9f86d081884c7d65'', token_count = 2\<rparr>,
          \<lparr>chunk_index = 1, chunk_text = ''Costs fell.'', page_number = None,
            char_offset_start = 15, char_offset_end = 26,
            content_hash = ''9f86d081884c7d65'', token_count = 2\<rparr>]"
  using chunk_ordinals_dense [OF line_doc_env_never_blank line_pdf_chunks]
        chunk_ordinals_dense [OF line_doc_env_never_blank line_text_chunks]
        chunk_ordinals_dense [OF line_doc_env_never_blank line_docx_chunks]
        line_doc_env_never_blank line_pdf_chunks line_text_chunks line_docx_chunks
  by simp

subsection \<open>Unsupported and unreadable files\<close>

text \<open>
  Claim C3 as stated (a file with an unrecognised extension makes the parse operation
  fail with an error) does not hold: for \<open>slides.pptx\<close> the operation returns the empty
  list of chunks as a normal result.
\<close>

theorem unsupported_extension_normal_result:
  "parse_document sample_doc_env ''slides.pptx'' = Inr [] \<and>
   \<not> isl (parse_document sample_doc_env ''slides.pptx'')"
  by (simp add: doc_eval)

text \<open>
  Claim C3, amended. For an extension other than \<open>.pdf\<close>, \<open>.docx\<close>, \<open>.doc\<close> and \<open>.txt\<close>
  (compared in lower case) \<open>parse_document\<close> returns the empty list as a normal result.
  For a recognised extension, an exception raised by the reader of that format is raised
  again unchanged; no error type of the processor's own wraps it.
\<close>

theorem unsupported_returns_empty:
  "(py_lower (path_suffix file_path) \<notin> {''.pdf'', ''.docx'', ''.doc'', ''.txt''} \<longrightarrow>
      parse_document env file_path = Inr []) \<and>
   (py_lower (path_suffix file_path) = ''.pdf'' \<and> fitz_open env file_path = Inl e \<longrightarrow>
      parse_document env file_path = Inl e) \<and>
   (py_lower (path_suffix file_path) \<in> {''.docx'', ''.doc''} \<and>
      docx_paragraphs env file_path = Inl e \<longrightarrow>
      parse_document env file_path = Inl e) \<and>
   (py_lower (path_suffix file_path) = ''.txt'' \<and> read_file env file_path = Inl e \<longrightarrow>
      parse_document env file_path = Inl e)"
  by (simp add: parse_document_def parse_pdf_def parse_docx_def parse_text_def Let_def)

lemma sample_suffixes:
  "py_lower (path_suffix ''slides.pptx'') = ''.pptx''"
  "py_lower (path_suffix ''broken.PDF'') = ''.pdf''"
  "py_lower (path_suffix ''old.doc'') = ''.doc''"
  "py_lower (path_suffix ''missing.txt'') = ''.txt''"
  by (simp_all add: path_suffix_def path_name_def py_lower_def py_lower_char_def
      upper_chars_def lower_chars_def Let_def)

lemma sample_readers_fail:
  "fitz_open sample_doc_env ''broken.PDF'' = Inl (LibraryError ''cannot open broken document'')"
  "docx_paragraphs sample_doc_env ''old.doc'' = Inl (LibraryError ''Package not found'')"
  "read_file sample_doc_env ''missing.txt'' = Inl (LibraryError ''No such file or directory'')"
  by (simp_all add: sample_doc_env_def)

theorem unsupported_returns_empty_witness:
  "py_lower (path_suffix ''slides.pptx'') \<notin> {''.pdf'', ''.docx'', ''.doc'', ''.txt''} \<and>
   parse_document sample_doc_env ''slides.pptx'' = Inr [] \<and>
   parse_document sample_doc_env ''broken.PDF'' = Inl (LibraryError ''cannot open broken document'') \<and>
   parse_document sample_doc_env ''old.doc'' = Inl (LibraryError ''Package not found'') \<and>
   parse_document sample_doc_env ''missing.txt'' = Inl (LibraryError ''No such file or directory'')"
  using unsupported_returns_empty [of "''slides.pptx''" sample_doc_env]
        unsupported_returns_empty [of "''broken.PDF''" sample_doc_env "LibraryError ''cannot open broken document''"]
        unsupported_returns_empty [of "''old.doc''" sample_doc_env "LibraryError ''Package not found''"]
        unsupported_returns_empty [of "''missing.txt''" sample_doc_env "LibraryError ''No such file or directory''"]
        sample_suffixes sample_readers_fail
  by simp

subsection \<open>Citations\<close>























subsection \<open>Confidence scores\<close>



lemma sample_scorer_unreachable:
  "calculate_confidence sample_numpy unreachable_llm sample_contexts ''a'' ''q'' ''k'' =
     \<lparr>overall = to_double (608 / 1000), retrieval = to_double (833 / 1000),
       coverage = to_double (667 / 1000), faithfulness = Fin (1 / 2), relevancy = Fin (1 / 2)\<rparr>"
  by code_simp

lemma sample_scorer_nan:
  "calculate_confidence sample_numpy nan_llm sample_contexts ''The answer.'' ''The question?'' ''sk-test'' =
     \<lparr>overall = NaN, retrieval = to_double (833 / 1000), coverage = to_double (667 / 1000),
       faithfulness = NaN, relevancy = NaN\<rparr>"
  by code_simp


lemma doubles_differ:
  "to_double (833 / 1000) \<noteq> to_double (5 / 6)"
  "to_double (833 / 1000) \<noteq> Fin (1 / 2)"
  "to_double (788 / 1000) \<noteq> to_double (5 / 6)"
  "to_double (667 / 1000) \<noteq> Fin (1 / 2)"
  "to_double (608 / 1000) \<noteq> Fin (1 / 2)"
  by code_simp+


lemma half_rounds_to_half: "py_round (Fin (1 / 2)) 3 = Fin (1 / 2)"
  by code_simp

lemma sample_texts:
  "texts_of sample_contexts = Inr [''Revenue grew 10%.'', ''Headcount was flat.'', ''Costs fell 5%.'']"
  by (simp add: sample_contexts_def)

lemma texts_of_fails_iff: "isl (texts_of rs) = (\<exists>r \<in> set rs. r_text r = None)"
  by (induction rs) (auto split: option.splits sum.splits)

lemma calculate_confidence_try_fails_iff:
  "isl (calculate_confidence_try numpy env rs answer question api_key) =
     (isl numpy \<or> (\<exists>r \<in> set rs. r_text r = None))"
  using texts_of_fails_iff [of rs]
  by (auto simp: calculate_confidence_try_def Let_def split: sum.splits)

lemma grading_call_failed:
  "chat_create env api_key ''gpt-4o-mini''
     [(''system'', faithfulness_system_prompt),
      (''user'', ''Context:'' @ nl @ py_join (nl @ ''---'' @ nl) contexts @ nl @ nl @
                 ''Answer:'' @ nl @ answer)] = Inl e \<Longrightarrow>
   check_faithfulness env answer contexts api_key = Fin (1 / 2)"
  "chat_create env api_key ''gpt-4o-mini''
     [(''system'', relevancy_system_prompt),
      (''user'', ''Question:'' @ nl @ question @ nl @ nl @ ''Answer:'' @ nl @ answer)] = Inl e \<Longrightarrow>
   check_relevancy env answer question api_key = Fin (1 / 2)"
  by (simp_all add: check_faithfulness_def check_relevancy_def grade_response_def Let_def)

text \<open>
  The scorer's result when numpy is there and every retrieval result has a text, in terms
  of the two grades.
\<close>

lemma calculate_confidence_value:
  assumes "numpy = Inr np_mean" and "texts_of rs = Inr contexts"
  shows "calculate_confidence numpy env rs answer question api_key =
           \<lparr> overall =
               py_round
                 (py_add
                    (py_add
                       (py_add
                          (py_mul (to_double (25 / 100))
                             (if rs = [] then Fin 0 else np_mean (scores_of rs)))
                          (py_mul (to_double (15 / 100))
                             (to_double
                                (of_nat (length (filter (\<lambda>s. py_gt s (to_double (7 / 10)))
                                                   (scores_of rs))) /
                                 of_nat (max (length rs) 1)))))
                       (py_mul (to_double (35 / 100))
                          (check_faithfulness env answer contexts api_key)))
                    (py_mul (to_double (25 / 100))
                       (check_relevancy env answer question api_key)))
                 3,
             retrieval = py_round (if rs = [] then Fin 0 else np_mean (scores_of rs)) 3,
             coverage =
               py_round
                 (to_double
                    (of_nat (length (filter (\<lambda>s. py_gt s (to_double (7 / 10))) (scores_of rs))) /
                     of_nat (max (length rs) 1)))
                 3,
             faithfulness = py_round (check_faithfulness env answer contexts api_key) 3,
             relevancy = py_round (check_relevancy env answer question api_key) 3 \<rparr>"
proof -
  have len: "length (scores_of rs) = length rs" by (simp add: scores_of_def)
  have ne: "scores_of rs \<noteq> [] \<longleftrightarrow> rs \<noteq> []" by (simp add: scores_of_def)
  have m: "retrieval_conf_of np_mean (scores_of rs) =
             (if rs = [] then Fin 0 else np_mean (scores_of rs))"
    unfolding retrieval_conf_of_def ne by simp
  have c: "coverage_of (scores_of rs) =
             to_double (of_nat (length (filter (\<lambda>s. py_gt s (to_double (7 / 10))) (scores_of rs))) /
                        of_nat (max (length rs) 1))"
    unfolding coverage_of_def len by (rule refl)
  show ?thesis
    unfolding calculate_confidence_def calculate_confidence_try_def Let_def
    by (simp only: assms sum.case m c)
qed

text \<open>
  Claim C7 as stated does not hold. When the grading calls fail, the failure is caught
  inside \<open>_check_faithfulness\<close> and \<open>_check_relevancy\<close>: only the two graded sub-scores
  become 0.5, retrieval is 0.833, coverage 0.667 and overall 0.608.
\<close>

theorem failed_grading_not_neutral:
  "calculate_confidence sample_numpy unreachable_llm sample_contexts ''a'' ''q'' ''k'' =
     \<lparr>overall = to_double (608 / 1000), retrieval = to_double (833 / 1000),
       coverage = to_double (667 / 1000), faithfulness = Fin (1 / 2), relevancy = Fin (1 / 2)\<rparr> \<and>
   to_double (608 / 1000) \<noteq> Fin (1 / 2) \<and>
   to_double (833 / 1000) \<noteq> Fin (1 / 2) \<and>
   to_double (667 / 1000) \<noteq> Fin (1 / 2)"
  using sample_scorer_unreachable doubles_differ by simp

text \<open>
  Claim C7, amended. \<open>calculate_confidence\<close> returns a record of scores for every input
  (it has no error result). For retrieval results whose scores are floats, the body of its
  \<open>try\<close> block fails exactly when numpy cannot be imported or a retrieval result lacks the
  key \<open>text\<close>, and then all five scores are 0.5. A grading call that fails does not fail
  the body: the sub-score it grades is 0.5 and the other scores are computed as usual.
\<close>

theorem scoring_failures_degrade:
  "(isl (calculate_confidence_try numpy env rs answer question api_key) =
      (isl numpy \<or> (\<exists>r \<in> set rs. r_text r = None))) \<and>
   (calculate_confidence_try numpy env rs answer question api_key = Inl e \<longrightarrow>
      calculate_confidence numpy env rs answer question api_key =
        \<lparr> overall = Fin (1 / 2), retrieval = Fin (1 / 2), coverage = Fin (1 / 2),
          faithfulness = Fin (1 / 2), relevancy = Fin (1 / 2) \<rparr>) \<and>
   (numpy = Inr np_mean \<and> texts_of rs = Inr contexts \<and>
    (\<forall>model messages. chat_create env api_key model messages = Inl e) \<longrightarrow>
      calculate_confidence numpy env rs answer question api_key =
        \<lparr> overall =
            py_round
              (py_add
                 (py_add
                    (py_add
                       (py_mul (to_double (25 / 100))
                          (if rs = [] then Fin 0 else np_mean (scores_of rs)))
                       (py_mul (to_double (15 / 100))
                          (to_double
                             (of_nat (length (filter (\<lambda>s. py_gt s (to_double (7 / 10)))
                                                (scores_of rs))) /
                              of_nat (max (length rs) 1)))))
                    (py_mul (to_double (35 / 100)) (Fin (1 / 2))))
                 (py_mul (to_double (25 / 100)) (Fin (1 / 2))))
              3,
          retrieval = py_round (if rs = [] then Fin 0 else np_mean (scores_of rs)) 3,
          coverage =
            py_round
              (to_double
                 (of_nat (length (filter (\<lambda>s. py_gt s (to_double (7 / 10))) (scores_of rs))) /
                  of_nat (max (length rs) 1)))
              3,
          faithfulness = Fin (1 / 2),
          relevancy = Fin (1 / 2) \<rparr>)"
proof (intro conjI impI)
  show "isl (calculate_confidence_try numpy env rs answer question api_key) =
          (isl numpy \<or> (\<exists>r \<in> set rs. r_text r = None))"
    by (rule calculate_confidence_try_fails_iff)
next
  assume "calculate_confidence_try numpy env rs answer question api_key = Inl e"
  then show "calculate_confidence numpy env rs answer question api_key =
        \<lparr> overall = Fin (1 / 2), retrieval = Fin (1 / 2), coverage = Fin (1 / 2),
          faithfulness = Fin (1 / 2), relevancy = Fin (1 / 2) \<rparr>"
    by (simp add: calculate_confidence_def default_scores_def)
next
  assume h: "numpy = Inr np_mean \<and> texts_of rs = Inr contexts \<and>
             (\<forall>model messages. chat_create env api_key model messages = Inl e)"
  then have f: "check_faithfulness env answer contexts api_key = Fin (1 / 2)"
    and r: "check_relevancy env answer question api_key = Fin (1 / 2)"
    by (simp_all add: grading_call_failed)
  from h have "numpy = Inr np_mean" and "texts_of rs = Inr contexts" by simp_all
  from calculate_confidence_value [OF this, of env answer question api_key]
  show "calculate_confidence numpy env rs answer question api_key =
        \<lparr> overall =
            py_round
              (py_add
                 (py_add
                    (py_add
                       (py_mul (to_double (25 / 100))
                          (if rs = [] then Fin 0 else np_mean (scores_of rs)))
                       (py_mul (to_double (15 / 100))
                          (to_double
                             (of_nat (length (filter (\<lambda>s. py_gt s (to_double (7 / 10)))
                                                (scores_of rs))) /
                              of_nat (max (length rs) 1)))))
                    (py_mul (to_double (35 / 100)) (Fin (1 / 2))))
                 (py_mul (to_double (25 / 100)) (Fin (1 / 2))))
              3,
          retrieval = py_round (if rs = [] then Fin 0 else np_mean (scores_of rs)) 3,
          coverage =
            py_round
              (to_double
                 (of_nat (length (filter (\<lambda>s. py_gt s (to_double (7 / 10))) (scores_of rs))) /
                  of_nat (max (length rs) 1)))
              3,
          faithfulness = Fin (1 / 2),
          relevancy = Fin (1 / 2) \<rparr>"
    by (simp only: f r half_rounds_to_half)
qed

lemma sample_scoring_fails:
  "calculate_confidence_try sample_numpy sample_llm (sample_contexts @ [untexted_result])
     ''answer'' ''question'' ''sk-test'' = Inl (KeyError ''text'')"
  "calculate_confidence_try missing_numpy sample_llm sample_contexts
     ''answer'' ''question'' ''sk-test'' = Inl (LibraryError ''No module named numpy'')"
  by (simp_all add: calculate_confidence_try_def sample_contexts_def untexted_result_def
      sample_numpy_def missing_numpy_def Let_def)

lemma unreachable_always_fails:
  "\<forall>model messages. chat_create unreachable_llm ''k'' model messages =
     Inl (LibraryError ''Connection error.'')"
  by (simp add: unreachable_llm_def)

theorem scoring_failures_degrade_witness:
  "calculate_confidence_try missing_numpy sample_llm sample_contexts
     ''answer'' ''question'' ''sk-test'' = Inl (LibraryError ''No module named numpy'') \<and>
   calculate_confidence missing_numpy sample_llm sample_contexts
     ''answer'' ''question'' ''sk-test'' =
     \<lparr> overall = Fin (1 / 2), retrieval = Fin (1 / 2), coverage = Fin (1 / 2),
       faithfulness = Fin (1 / 2), relevancy = Fin (1 / 2) \<rparr> \<and>
   calculate_confidence sample_numpy sample_llm (sample_contexts @ [untexted_result])
     ''answer'' ''question'' ''sk-test'' =
     \<lparr> overall = Fin (1 / 2), retrieval = Fin (1 / 2), coverage = Fin (1 / 2),
       faithfulness = Fin (1 / 2), relevancy = Fin (1 / 2) \<rparr> \<and>
   sample_numpy = Inr sample_mean \<and>
   texts_of sample_contexts =
     Inr [''Revenue grew 10%.'', ''Headcount was flat.'', ''Costs fell 5%.''] \<and>
   chat_create unreachable_llm ''k'' ''gpt-4o-mini'' [] =
     Inl (LibraryError ''Connection error.'') \<and>
   calculate_confidence sample_numpy unreachable_llm sample_contexts ''a'' ''q'' ''k'' =
     \<lparr>overall = to_double (608 / 1000), retrieval = to_double (833 / 1000),
       coverage = to_double (667 / 1000), faithfulness = Fin (1 / 2), relevancy = Fin (1 / 2)\<rparr>"
  using scoring_failures_degrade
          [of missing_numpy sample_llm sample_contexts "''answer''" "''question''" "''sk-test''"
              "LibraryError ''No module named numpy''"]
        scoring_failures_degrade
          [of sample_numpy sample_llm "sample_contexts @ [untexted_result]" "''answer''"
              "''question''" "''sk-test''" "KeyError ''text''"]
        scoring_failures_degrade
          [of sample_numpy unreachable_llm sample_contexts "''a''" "''q''" "''k''"
              "LibraryError ''Connection error.''" sample_mean
              "[''Revenue grew 10%.'', ''Headcount was flat.'', ''Costs fell 5%.'']"]
        sample_scoring_fails sample_texts unreachable_always_fails sample_scorer_unreachable
  by (simp add: sample_numpy_def)




subsection \<open>Grades returned by the model\<close>

text \<open>
  A reply that \<open>float\<close> parses to anything but NaN (an infinity included) is clamped into
  the interval from 0 to 1; a failed call, a missing content and an unparseable reply give
  0.5.
\<close>

lemma grade_response_clamps:
  assumes "float_of_str env (py_strip content) = Some score" and "score \<noteq> NaN"
  shows "grade_response env (Inr (Some content)) =
           (if py_lt score (Fin 0) then Fin 0 else if py_lt (Fin 1) score then Fin 1 else score)"
    and "\<exists>x. grade_response env (Inr (Some content)) = Fin x \<and> 0 \<le> x \<and> x \<le> 1"
  using assms by (cases score; simp add: grade_response_def py_min_def py_max_def py_gt_def)+

lemma grade_response_default:
  "grade_response env (Inl e) = Fin (1 / 2)"
  "grade_response env (Inr None) = Fin (1 / 2)"
  "float_of_str env (py_strip content) = None \<Longrightarrow>
     grade_response env (Inr (Some content)) = Fin (1 / 2)"
  by (simp_all add: grade_response_def)

lemma nan_grades:
  "check_faithfulness nan_llm ''The answer.'' [''Some context.''] ''sk-test'' = NaN"
  "check_relevancy nan_llm ''The answer.'' ''The question?'' ''sk-test'' = NaN"
  by (simp_all add: check_faithfulness_def check_relevancy_def grade_response_def nan_llm_def
      py_min_def py_max_def py_gt_def py_strip_def py_isspace_def Let_def)

text \<open>
  Claim C9 (a parsed grade is clamped into \<open>[0, 1]\<close>, so the two graded sub-scores always
  lie in \<open>[0, 1]\<close>). For the reply \<open>nan\<close> the parsed grade is NaN; both comparisons made by
  \<open>min(max(score, 0.0), 1.0)\<close> are false for it, so NaN is returned as faithfulness and as
  relevancy, and the overall score is NaN as well.
\<close>

theorem nan_grade_escapes_clamp:
  "check_faithfulness nan_llm ''The answer.'' [''Some context.''] ''sk-test'' = NaN \<and>
   check_relevancy nan_llm ''The answer.'' ''The question?'' ''sk-test'' = NaN \<and>
   \<not> py_lt NaN (Fin 0) \<and> \<not> py_lt (Fin 1) NaN \<and>
   calculate_confidence sample_numpy nan_llm sample_contexts
     ''The answer.'' ''The question?'' ''sk-test'' =
     \<lparr>overall = NaN, retrieval = to_double (833 / 1000), coverage = to_double (667 / 1000),
       faithfulness = NaN, relevancy = NaN\<rparr>"
  using nan_grades sample_scorer_nan by simp

subsection \<open>Vector index queries\<close>

lemmas query_eval =
  query_def get_collection_def collection_name_def transform_results_def query_chunk_def
  subscript_0_i_def sample_chroma_def Let_def

lemma sample_query:
  "query sample_chroma ''11111111-aaaa-bbbb'' ''2222-2222-cccc'' [Fin 1, Fin 0] 5 =
     Inr [\<lparr>r_vector_id = Some ''v1'', r_text = Some ''Revenue grew 10%.'',
            r_metadata = Some \<lparr>md_document_id = Some ''d1'', md_chunk_id = Some ''c1'',
                                md_page_number = Some 1, md_chunk_index = Some 0\<rparr>,
            r_score = Some (Fin 1), r_chunk_id = Some ''c1''\<rparr>,
          \<lparr>r_vector_id = Some ''v2'', r_text = Some ''Costs fell 5%.'',
            r_metadata = Some \<lparr>md_document_id = Some ''d2'', md_chunk_id = Some ''c3'',
                                md_page_number = Some 2, md_chunk_index = Some 0\<rparr>,
            r_score = Some (Fin (- 1)), r_chunk_id = Some ''c3''\<rparr>]"
  by (simp add: query_eval one_minus_zero one_minus_two)

text \<open>
  Claim C4 as stated does not hold for the score: the score is \<open>1.0 - distance\<close>, and for
  an entry pointing opposite to the query (cosine distance 2) it is \<open>-1\<close>, outside
  \<open>[0, 1]\<close>.
\<close>

theorem opposite_direction_scores_negative:
  "query sample_chroma ''11111111-aaaa-bbbb'' ''2222-2222-cccc'' [Fin 1, Fin 0] 5 =
     Inr [\<lparr>r_vector_id = Some ''v1'', r_text = Some ''Revenue grew 10%.'',
            r_metadata = Some \<lparr>md_document_id = Some ''d1'', md_chunk_id = Some ''c1'',
                                md_page_number = Some 1, md_chunk_index = Some 0\<rparr>,
            r_score = Some (Fin 1), r_chunk_id = Some ''c1''\<rparr>,
          \<lparr>r_vector_id = Some ''v2'', r_text = Some ''Costs fell 5%.'',
            r_metadata = Some \<lparr>md_document_id = Some ''d2'', md_chunk_id = Some ''c3'',
                                md_page_number = Some 2, md_chunk_index = Some 0\<rparr>,
            r_score = Some (Fin (- 1)), r_chunk_id = Some ''c3''\<rparr>] \<and>
   \<not> (0 \<le> (- 1 :: rat))"
  by (simp add: query_eval one_minus_zero one_minus_two)

lemma query_chunk_aligned:
  assumes "aligned_reply results row docs mds ds" and "i < length row"
  shows "query_chunk results vector_id i =
           Inr \<lparr> r_vector_id = Some vector_id, r_text = Some (docs ! i),
                 r_metadata = Some (mds ! i), r_score = Some (py_sub (Fin 1) (ds ! i)),
                 r_chunk_id = md_chunk_id (mds ! i) \<rparr>"
  using assms by (simp add: query_chunk_def subscript_0_i_def aligned_reply_def)

lemma query_loop_chunks:
  "query_loop results i vector_ids acc = Inr chunks \<Longrightarrow>
   \<exists>cs. chunks = acc @ cs \<and> length cs = length vector_ids \<and>
        (\<forall>j < length vector_ids. query_chunk results (vector_ids ! j) (i + j) = Inr (cs ! j))"
proof (induction vector_ids arbitrary: i acc)
  case Nil
  then show ?case by simp
next
  case (Cons vector_id rest)
  from Cons.prems obtain c where
    c: "query_chunk results vector_id i = Inr c"
    and loop: "query_loop results (i + 1) rest (acc @ [c]) = Inr chunks"
    by (auto split: sum.splits)
  from Cons.IH [OF loop] obtain cs where
    cs: "chunks = (acc @ [c]) @ cs" "length cs = length rest"
        "\<forall>j < length rest. query_chunk results (rest ! j) (i + 1 + j) = Inr (cs ! j)"
    by blast
  have "\<forall>j < length (vector_id # rest).
          query_chunk results ((vector_id # rest) ! j) (i + j) = Inr ((c # cs) ! j)"
  proof (intro allI impI)
    fix j assume "j < length (vector_id # rest)"
    then show "query_chunk results ((vector_id # rest) ! j) (i + j) = Inr ((c # cs) ! j)"
      using c cs(3) by (cases j) auto
  qed
  with cs(1,2) show ?case
    by (intro exI [of _ "c # cs"]) simp
qed

lemma query_loop_returns:
  "\<forall>j < length vector_ids. \<exists>c. query_chunk results (vector_ids ! j) (i + j) = Inr c \<Longrightarrow>
   \<exists>chunks. query_loop results i vector_ids acc = Inr chunks"
proof (induction vector_ids arbitrary: i acc)
  case Nil
  then show ?case by simp
next
  case (Cons vector_id rest)
  from Cons.prems [rule_format, of 0] obtain c where
    c: "query_chunk results vector_id i = Inr c" by auto
  have "\<forall>j < length rest. \<exists>c. query_chunk results (rest ! j) (i + 1 + j) = Inr c"
  proof (intro allI impI)
    fix j assume "j < length rest"
    with Cons.prems [rule_format, of "Suc j"]
    show "\<exists>c. query_chunk results (rest ! j) (i + 1 + j) = Inr c" by simp
  qed
  from Cons.IH [OF this, of "acc @ [c]"] c show ?case by simp
qed

lemma query_of_reply:
  assumes "get_or_create_collection env (collection_name tenant_id project_id) = Inr u"
    and "collection_query env (collection_name tenant_id project_id) query_embedding top_k =
           Inr results"
  shows "query env tenant_id project_id query_embedding top_k = transform_results results"
  using assms by (simp add: query_def get_collection_def Let_def)

lemma transform_aligned:
  assumes al: "aligned_reply results row docs mds ds"
  shows "\<exists>chunks. transform_results results = Inr chunks \<and> length chunks = length row \<and>
           (\<forall>i < length row.
              chunks ! i =
                \<lparr> r_vector_id = Some (row ! i), r_text = Some (docs ! i),
                  r_metadata = Some (mds ! i), r_score = Some (py_sub (Fin 1) (ds ! i)),
                  r_chunk_id = md_chunk_id (mds ! i) \<rparr>)"
proof -
  from al have ids: "ids results = [row]" by (simp add: aligned_reply_def)
  have each: "\<forall>j < length row. \<exists>c. query_chunk results (row ! j) (0 + j) = Inr c"
    using query_chunk_aligned [OF al] by simp
  from query_loop_returns [OF each, of "[]"] obtain chunks where
    loop: "query_loop results 0 row [] = Inr chunks" by blast
  from query_loop_chunks [OF loop] have
    len: "length chunks = length row"
    and got: "\<forall>j < length row. query_chunk results (row ! j) j = Inr (chunks ! j)"
    by auto
  have "\<forall>i < length row.
          chunks ! i =
            \<lparr> r_vector_id = Some (row ! i), r_text = Some (docs ! i),
              r_metadata = Some (mds ! i), r_score = Some (py_sub (Fin 1) (ds ! i)),
              r_chunk_id = md_chunk_id (mds ! i) \<rparr>"
  proof (intro allI impI)
    fix i assume i: "i < length row"
    with got have "query_chunk results (row ! i) i = Inr (chunks ! i)" by simp
    with query_chunk_aligned [OF al i, of "row ! i"]
    show "chunks ! i =
            \<lparr> r_vector_id = Some (row ! i), r_text = Some (docs ! i),
              r_metadata = Some (mds ! i), r_score = Some (py_sub (Fin 1) (ds ! i)),
              r_chunk_id = md_chunk_id (mds ! i) \<rparr>"
      by simp
  qed
  with loop len ids show ?thesis by (simp add: transform_results_def)
qed

text \<open>
  Claim C4, amended in the range of the score only. A failure of the index is passed on.
  Otherwise the query returns a list and not an error: the empty list when the index
  returns no ids, as it does for an empty namespace (an absent one is created empty by
  \<open>get_or_create_collection\<close>); and, when the index replies with a row of at most \<open>k\<close> ids
  and the texts, metadata and cosine distances aligned with it, a list of at most \<open>k\<close>
  entries, one for each id in the same order, with the stored text and metadata and the
  score \<open>1.0 - distance\<close>. For a cosine distance between 0 and 2 the score is the cosine
  similarity, between \<open>-1\<close> and 1 (not between 0 and 1), and it is 1 for distance 0, that
  is for identical direction.
\<close>

theorem query_top_k:
  "(get_or_create_collection env (collection_name tenant_id project_id) = Inl e \<longrightarrow>
      query env tenant_id project_id query_embedding top_k = Inl e) \<and>
   (get_or_create_collection env (collection_name tenant_id project_id) = Inr u \<and>
    collection_query env (collection_name tenant_id project_id) query_embedding top_k = Inl e \<longrightarrow>
      query env tenant_id project_id query_embedding top_k = Inl e) \<and>
   (get_or_create_collection env (collection_name tenant_id project_id) = Inr u \<and>
    collection_query env (collection_name tenant_id project_id) query_embedding top_k =
      Inr results \<longrightarrow>
      (ids results = [] \<or> hd (ids results) = [] \<longrightarrow>
         query env tenant_id project_id query_embedding top_k = Inr []) \<and>
      (aligned_reply results row docs mds ds \<and> int (length row) \<le> top_k \<and>
       (\<forall>i < length row. \<exists>d. ds ! i = Fin d \<and> 0 \<le> d \<and> d \<le> 2) \<longrightarrow>
         (\<exists>chunks. query env tenant_id project_id query_embedding top_k = Inr chunks \<and>
            int (length chunks) \<le> top_k \<and> length chunks = length row \<and>
            (\<forall>i < length chunks.
               r_vector_id (chunks ! i) = Some (row ! i) \<and>
               r_text (chunks ! i) = Some (docs ! i) \<and>
               r_metadata (chunks ! i) = Some (mds ! i) \<and>
               r_score (chunks ! i) = Some (py_sub (Fin 1) (ds ! i)) \<and>
               (\<exists>s. r_score (chunks ! i) = Some (Fin s) \<and> - 1 \<le> s \<and> s \<le> 1) \<and>
               (ds ! i = Fin 0 \<longrightarrow> r_score (chunks ! i) = Some (Fin 1))))))"
proof (intro conjI impI)
  assume "get_or_create_collection env (collection_name tenant_id project_id) = Inl e"
  then show "query env tenant_id project_id query_embedding top_k = Inl e"
    by (simp add: query_def get_collection_def Let_def)
next
  assume "get_or_create_collection env (collection_name tenant_id project_id) = Inr u \<and>
    collection_query env (collection_name tenant_id project_id) query_embedding top_k = Inl e"
  then show "query env tenant_id project_id query_embedding top_k = Inl e"
    by (simp add: query_def get_collection_def Let_def)
next
  assume h: "get_or_create_collection env (collection_name tenant_id project_id) = Inr u \<and>
    collection_query env (collection_name tenant_id project_id) query_embedding top_k =
      Inr results"
  then have q: "query env tenant_id project_id query_embedding top_k = transform_results results"
    by (simp add: query_of_reply)
  assume "ids results = [] \<or> hd (ids results) = []"
  then show "query env tenant_id project_id query_embedding top_k = Inr []"
    unfolding q by (cases "ids results") (auto simp: transform_results_def)
next
  assume h: "get_or_create_collection env (collection_name tenant_id project_id) = Inr u \<and>
    collection_query env (collection_name tenant_id project_id) query_embedding top_k =
      Inr results"
  then have q: "query env tenant_id project_id query_embedding top_k = transform_results results"
    by (simp add: query_of_reply)
  assume a: "aligned_reply results row docs mds ds \<and> int (length row) \<le> top_k \<and>
       (\<forall>i < length row. \<exists>d. ds ! i = Fin d \<and> 0 \<le> d \<and> d \<le> 2)"
  then have al: "aligned_reply results row docs mds ds"
    and k: "int (length row) \<le> top_k"
    and ds: "\<forall>i < length row. \<exists>d. ds ! i = Fin d \<and> 0 \<le> d \<and> d \<le> 2"
    by simp_all
  from transform_aligned [OF al] obtain chunks where
    tr: "transform_results results = Inr chunks"
    and len: "length chunks = length row"
    and each: "\<forall>i < length row.
              chunks ! i =
                \<lparr> r_vector_id = Some (row ! i), r_text = Some (docs ! i),
                  r_metadata = Some (mds ! i), r_score = Some (py_sub (Fin 1) (ds ! i)),
                  r_chunk_id = md_chunk_id (mds ! i) \<rparr>"
    by blast
  have entry: "r_vector_id (chunks ! i) = Some (row ! i) \<and>
        r_text (chunks ! i) = Some (docs ! i) \<and>
        r_metadata (chunks ! i) = Some (mds ! i) \<and>
        r_score (chunks ! i) = Some (py_sub (Fin 1) (ds ! i)) \<and>
        (\<exists>s. r_score (chunks ! i) = Some (Fin s) \<and> - 1 \<le> s \<and> s \<le> 1) \<and>
        (ds ! i = Fin 0 \<longrightarrow> r_score (chunks ! i) = Some (Fin 1))"
    if "i < length chunks" for i
  proof -
    from that len have i: "i < length row" by simp
    with each have c: "chunks ! i =
                \<lparr> r_vector_id = Some (row ! i), r_text = Some (docs ! i),
                  r_metadata = Some (mds ! i), r_score = Some (py_sub (Fin 1) (ds ! i)),
                  r_chunk_id = md_chunk_id (mds ! i) \<rparr>" by simp
    from ds i obtain d where d: "ds ! i = Fin d" "0 \<le> d" "d \<le> 2" by blast
    from cosine_score_range [OF d(2,3)] obtain s where
      s: "py_sub (Fin 1) (Fin d) = Fin s" "- 1 \<le> s" "s \<le> 1" by blast
    show ?thesis
      using s d(1) by (auto simp: c one_minus_zero)
  qed
  show "\<exists>chunks. query env tenant_id project_id query_embedding top_k = Inr chunks \<and>
            int (length chunks) \<le> top_k \<and> length chunks = length row \<and>
            (\<forall>i < length chunks.
               r_vector_id (chunks ! i) = Some (row ! i) \<and>
               r_text (chunks ! i) = Some (docs ! i) \<and>
               r_metadata (chunks ! i) = Some (mds ! i) \<and>
               r_score (chunks ! i) = Some (py_sub (Fin 1) (ds ! i)) \<and>
               (\<exists>s. r_score (chunks ! i) = Some (Fin s) \<and> - 1 \<le> s \<and> s \<le> 1) \<and>
               (ds ! i = Fin 0 \<longrightarrow> r_score (chunks ! i) = Some (Fin 1)))"
    unfolding q
  proof (intro exI [of _ chunks] conjI)
    show "transform_results results = Inr chunks" by (rule tr)
    show "int (length chunks) \<le> top_k" using len k by simp
    show "length chunks = length row" by (rule len)
    show "\<forall>i < length chunks.
               r_vector_id (chunks ! i) = Some (row ! i) \<and>
               r_text (chunks ! i) = Some (docs ! i) \<and>
               r_metadata (chunks ! i) = Some (mds ! i) \<and>
               r_score (chunks ! i) = Some (py_sub (Fin 1) (ds ! i)) \<and>
               (\<exists>s. r_score (chunks ! i) = Some (Fin s) \<and> - 1 \<le> s \<and> s \<le> 1) \<and>
               (ds ! i = Fin 0 \<longrightarrow> r_score (chunks ! i) = Some (Fin 1))"
      using entry by blast
  qed
qed

lemma sample_collection_query:
  "get_or_create_collection sample_chroma
     (collection_name ''11111111-aaaa-bbbb'' ''2222-2222-cccc'') = Inr ()"
  "collection_query sample_chroma (collection_name ''11111111-aaaa-bbbb'' ''2222-2222-cccc'')
     [Fin 1, Fin 0] 5 =
     Inr \<lparr> ids = [[''v1'', ''v2'']],
           documents = Some [[''Revenue grew 10%.'', ''Costs fell 5%.'']],
           metadatas =
             Some [[\<lparr> md_document_id = Some ''d1'', md_chunk_id = Some ''c1'',
                       md_page_number = Some 1, md_chunk_index = Some 0 \<rparr>,
                     \<lparr> md_document_id = Some ''d2'', md_chunk_id = Some ''c3'',
                       md_page_number = Some 2, md_chunk_index = Some 0 \<rparr>]],
           distances = Some [[Fin 0, Fin 2]] \<rparr>"
  "get_or_create_collection sample_chroma
     (collection_name ''99999999-aaaa-bbbb'' ''2222-2222-cccc'') = Inr ()"
  "collection_query sample_chroma (collection_name ''99999999-aaaa-bbbb'' ''2222-2222-cccc'')
     [Fin 1, Fin 0] 5 =
     Inr \<lparr> ids = [[]], documents = Some [[]], metadatas = Some [[]], distances = Some [[]] \<rparr>"
  by (simp_all add: sample_chroma_def collection_name_def Let_def)

lemma sample_aligned:
  "aligned_reply
     \<lparr> ids = [[''v1'', ''v2'']],
       documents = Some [[''Revenue grew 10%.'', ''Costs fell 5%.'']],
       metadatas =
         Some [[\<lparr> md_document_id = Some ''d1'', md_chunk_id = Some ''c1'',
                   md_page_number = Some 1, md_chunk_index = Some 0 \<rparr>,
                 \<lparr> md_document_id = Some ''d2'', md_chunk_id = Some ''c3'',
                   md_page_number = Some 2, md_chunk_index = Some 0 \<rparr>]],
       distances = Some [[Fin 0, Fin 2]] \<rparr>
     [''v1'', ''v2''] [''Revenue grew 10%.'', ''Costs fell 5%.'']
     [\<lparr> md_document_id = Some ''d1'', md_chunk_id = Some ''c1'',
        md_page_number = Some 1, md_chunk_index = Some 0 \<rparr>,
      \<lparr> md_document_id = Some ''d2'', md_chunk_id = Some ''c3'',
        md_page_number = Some 2, md_chunk_index = Some 0 \<rparr>]
     [Fin 0, Fin 2]"
  by (simp add: aligned_reply_def)

lemma sample_distances:
  "\<forall>i < length [''v1'', ''v2'']. \<exists>d. [Fin 0, Fin 2] ! i = Fin d \<and> 0 \<le> d \<and> d \<le> 2"
  by (simp add: less_Suc_eq nth_Cons')

theorem query_top_k_witness:
  "get_or_create_collection sample_chroma
     (collection_name ''11111111-aaaa-bbbb'' ''2222-2222-cccc'') = Inr () \<and>
   collection_query sample_chroma (collection_name ''11111111-aaaa-bbbb'' ''2222-2222-cccc'')
     [Fin 1, Fin 0] 5 =
     Inr \<lparr> ids = [[''v1'', ''v2'']],
           documents = Some [[''Revenue grew 10%.'', ''Costs fell 5%.'']],
           metadatas =
             Some [[\<lparr> md_document_id = Some ''d1'', md_chunk_id = Some ''c1'',
                       md_page_number = Some 1, md_chunk_index = Some 0 \<rparr>,
                     \<lparr> md_document_id = Some ''d2'', md_chunk_id = Some ''c3'',
                       md_page_number = Some 2, md_chunk_index = Some 0 \<rparr>]],
           distances = Some [[Fin 0, Fin 2]] \<rparr> \<and>
   int (length [''v1'', ''v2'']) \<le> 5 \<and>
   [Fin 0, Fin 2] ! 0 = Fin 0 \<and> [Fin 0, Fin 2] ! 1 = Fin 2 \<and> (0 :: rat) \<le> 2 \<and> (2 :: rat) \<le> 2 \<and>
   (\<exists>chunks. query sample_chroma ''11111111-aaaa-bbbb'' ''2222-2222-cccc'' [Fin 1, Fin 0] 5 =
        Inr chunks \<and>
      int (length chunks) \<le> 5 \<and> length chunks = 2 \<and>
      r_vector_id (chunks ! 0) = Some ''v1'' \<and> r_text (chunks ! 0) = Some ''Revenue grew 10%.'' \<and>
      r_score (chunks ! 0) = Some (Fin 1) \<and>
      r_vector_id (chunks ! 1) = Some ''v2'' \<and> r_text (chunks ! 1) = Some ''Costs fell 5%.'' \<and>
      r_score (chunks ! 1) = Some (Fin (- 1))) \<and>
   get_or_create_collection sample_chroma
     (collection_name ''99999999-aaaa-bbbb'' ''2222-2222-cccc'') = Inr () \<and>
   hd (ids \<lparr> ids = [[]], documents = Some [[]], metadatas = Some [[]],
             distances = Some [[]] \<rparr>) = [] \<and>
   query sample_chroma ''99999999-aaaa-bbbb'' ''2222-2222-cccc'' [Fin 1, Fin 0] 5 = Inr []"
  using query_top_k
          [where env = sample_chroma and tenant_id = "''11111111-aaaa-bbbb''"
             and project_id = "''2222-2222-cccc''" and query_embedding = "[Fin 1, Fin 0]"
             and top_k = 5 and u = "()"
             and results = "\<lparr> ids = [[''v1'', ''v2'']],
                 documents = Some [[''Revenue grew 10%.'', ''Costs fell 5%.'']],
                 metadatas =
                   Some [[\<lparr> md_document_id = Some ''d1'', md_chunk_id = Some ''c1'',
                             md_page_number = Some 1, md_chunk_index = Some 0 \<rparr>,
                           \<lparr> md_document_id = Some ''d2'', md_chunk_id = Some ''c3'',
                             md_page_number = Some 2, md_chunk_index = Some 0 \<rparr>]],
                 distances = Some [[Fin 0, Fin 2]] \<rparr>"
             and row = "[''v1'', ''v2'']"
             and docs = "[''Revenue grew 10%.'', ''Costs fell 5%.'']"
             and mds = "[\<lparr> md_document_id = Some ''d1'', md_chunk_id = Some ''c1'',
                            md_page_number = Some 1, md_chunk_index = Some 0 \<rparr>,
                          \<lparr> md_document_id = Some ''d2'', md_chunk_id = Some ''c3'',
                            md_page_number = Some 2, md_chunk_index = Some 0 \<rparr>]"
             and ds = "[Fin 0, Fin 2]"]
        query_top_k
          [where env = sample_chroma and tenant_id = "''99999999-aaaa-bbbb''"
             and project_id = "''2222-2222-cccc''" and query_embedding = "[Fin 1, Fin 0]"
             and top_k = 5 and u = "()"
             and results = "\<lparr> ids = [[]], documents = Some [[]], metadatas = Some [[]],
                               distances = Some [[]] \<rparr>"]
        sample_collection_query sample_aligned sample_distances sample_query
  by simp

subsection \<open>Overall evaluation score\<close>

lemma rouge_l_always_present:
  "dict_get0 (calculate_rouge env generated reference) ''rougeL_f1'' =
     Some (case rouge_score env reference generated of Inl e \<Rightarrow> Fin 0 | Inr (r1, r2, rl) \<Rightarrow> rl)"
  by (simp add: calculate_rouge_def dict_get0_def split: sum.splits prod.splits)

text \<open>
  Taken alone, \<open>_calculate_overall_score\<close> drops every input that is \<open>None\<close>, ROUGE-L
  included, and returns \<open>None\<close> when all three are \<open>None\<close>.
\<close>

lemma overall_drops_absent_inputs:
  "scores_weights bleu rouge semantic =
     (case bleu of None \<Rightarrow> [] | Some b \<Rightarrow> [(b, Fin (25 / 100))]) @
     (case dict_get0 rouge ''rougeL_f1'' of None \<Rightarrow> [] | Some rl \<Rightarrow> [(rl, Fin (25 / 100))]) @
     (case semantic of None \<Rightarrow> [] | Some sv \<Rightarrow> [(sv, Fin (50 / 100))])"
  "bleu = None \<Longrightarrow> dict_get0 rouge ''rougeL_f1'' = None \<Longrightarrow> semantic = None \<Longrightarrow>
     calculate_overall_score env bleu rouge semantic = None"
  by (simp_all add: scores_weights_def calculate_overall_score_def)

text \<open>
  What \<open>_calculate_rouge\<close> returns is never \<open>None\<close>: a failed ROUGE computation enters the
  overall score as the score 0.0 with the weight 0.25.
\<close>

lemma failed_rouge_is_weighted:
  "rouge_score env reference generated = Inl e \<Longrightarrow>
   scores_weights bleu (calculate_rouge env generated reference) semantic =
     (case bleu of None \<Rightarrow> [] | Some b \<Rightarrow> [(b, Fin (25 / 100))]) @
     [(Fin 0, Fin (25 / 100))] @
     (case semantic of None \<Rightarrow> [] | Some sv \<Rightarrow> [(sv, Fin (50 / 100))])"
  by (simp add: scores_weights_def rouge_l_always_present)

text \<open>
  Claim C6 (a sub-score whose computation failed is dropped from numerator and
  denominator and never treated as zero; with no computable sub-score the overall score
  is absent). \<open>_calculate_bleu\<close> and \<open>_calculate_semantic_similarity\<close> return \<open>None\<close> on
  failure and \<open>_calculate_overall_score\<close> tests all three inputs for \<open>None\<close>, but
  \<open>_calculate_rouge\<close> returns 0.0 on failure. With BLEU 0.8, semantic similarity 0.6 and a
  failed ROUGE computation, \<open>evaluate\<close> reports the overall score 0.5, where dropping
  ROUGE-L gives 0.6667; with nothing computable it reports the overall score 0.0, not an
  absent one.
\<close>

theorem failed_rouge_counts_as_zero:
  "evaluate rouge_missing_env (PyStr ''Revenue grew.'') (PyStr ''Revenue grew 10%.'') =
     \<lparr> bleu_score = Some (to_double (8 / 10)), rouge_1_f1 = Some (Fin 0),
       rouge_2_f1 = Some (Fin 0), rouge_l_f1 = Some (Fin 0),
       semantic_similarity = Some (to_double (6 / 10)), overall_score = Some (Fin (1 / 2)) \<rparr> \<and>
   map_option (\<lambda>v. py_round v 4)
     (calculate_overall_score rouge_missing_env (Some (to_double (8 / 10)))
        [(''rouge1_f1'', None), (''rouge2_f1'', None), (''rougeL_f1'', None)]
        (Some (to_double (6 / 10)))) = Some (to_double (6667 / 10000)) \<and>
   to_double (6667 / 10000) \<noteq> Fin (1 / 2) \<and>
   evaluate offline_eval_env (PyStr ''Revenue grew.'') (PyStr ''Revenue grew 10%.'') =
     \<lparr> bleu_score = None, rouge_1_f1 = Some (Fin 0), rouge_2_f1 = Some (Fin 0),
       rouge_l_f1 = Some (Fin 0), semantic_similarity = None, overall_score = Some (Fin 0) \<rparr>"
  by code_simp

subsection \<open>Failure of the whole evaluation\<close>

lemma normalize_text_fails_iff: "isl (normalize_text v) = (\<exists>n. v = PyInt n \<and> n \<noteq> 0)"
  by (cases v) (auto simp: normalize_text_def)

lemma round_rouge_ok:
  "\<exists>v. round_rouge (calculate_rouge env generated reference) key = Inr v"
  by (auto simp: round_rouge_def calculate_rouge_def dict_get0_def split: sum.splits prod.splits)

lemma evaluate_try_fails_iff:
  "isl (evaluate_try env generated_answer ground_truth) =
     (isl (normalize_text generated_answer) \<or> isl (normalize_text ground_truth))"
proof -
  have "\<not> isl (evaluate_try env generated_answer ground_truth)"
    if g: "normalize_text generated_answer = Inr gen_clean"
    and t: "normalize_text ground_truth = Inr gt_clean" for gen_clean gt_clean
  proof -
    obtain r1 r2 rl where
      "round_rouge (calculate_rouge env gen_clean gt_clean) ''rouge1_f1'' = Inr r1"
      "round_rouge (calculate_rouge env gen_clean gt_clean) ''rouge2_f1'' = Inr r2"
      "round_rouge (calculate_rouge env gen_clean gt_clean) ''rougeL_f1'' = Inr rl"
      using round_rouge_ok by metis
    then show ?thesis
      by (simp add: evaluate_try_def g t Let_def)
  qed
  then show ?thesis
    by (cases "normalize_text generated_answer"; cases "normalize_text ground_truth")
       (auto simp: evaluate_try_def)
qed

text \<open>
  Claim C10. \<open>evaluate\<close> returns a metrics record for every pair of inputs (it has no
  error result), and whenever the body of its \<open>try\<close> block fails, every one of the six
  fields of the record is \<open>None\<close>. The body fails exactly when an input is a non-zero
  non-string value (lemma \<open>evaluate_try_fails_iff\<close>); \<open>None\<close> and the empty string are
  normalised to the empty string.
\<close>

theorem evaluate_failure_all_absent:
  "(isl (evaluate_try env generated_answer ground_truth) =
      ((\<exists>n. generated_answer = PyInt n \<and> n \<noteq> 0) \<or> (\<exists>n. ground_truth = PyInt n \<and> n \<noteq> 0))) \<and>
   (evaluate_try env generated_answer ground_truth = Inl e \<longrightarrow>
      bleu_score (evaluate env generated_answer ground_truth) = None \<and>
      rouge_1_f1 (evaluate env generated_answer ground_truth) = None \<and>
      rouge_2_f1 (evaluate env generated_answer ground_truth) = None \<and>
      rouge_l_f1 (evaluate env generated_answer ground_truth) = None \<and>
      semantic_similarity (evaluate env generated_answer ground_truth) = None \<and>
      overall_score (evaluate env generated_answer ground_truth) = None)"
proof (rule conjI)
  show "isl (evaluate_try env generated_answer ground_truth) =
          ((\<exists>n. generated_answer = PyInt n \<and> n \<noteq> 0) \<or> (\<exists>n. ground_truth = PyInt n \<and> n \<noteq> 0))"
    unfolding evaluate_try_fails_iff normalize_text_fails_iff by (rule refl)
next
  show "evaluate_try env generated_answer ground_truth = Inl e \<longrightarrow>
      bleu_score (evaluate env generated_answer ground_truth) = None \<and>
      rouge_1_f1 (evaluate env generated_answer ground_truth) = None \<and>
      rouge_2_f1 (evaluate env generated_answer ground_truth) = None \<and>
      rouge_l_f1 (evaluate env generated_answer ground_truth) = None \<and>
      semantic_similarity (evaluate env generated_answer ground_truth) = None \<and>
      overall_score (evaluate env generated_answer ground_truth) = None"
    by (simp add: evaluate_def empty_metrics_def)
qed

lemma sample_evaluate_fails:
  "evaluate_try offline_eval_env (PyInt 7) (PyStr ''Revenue grew 10%.'') = Inl AttributeError"
  by (simp add: evaluate_try_def normalize_text_def)

theorem evaluate_failure_all_absent_witness:
  "evaluate_try offline_eval_env (PyInt 7) (PyStr ''Revenue grew 10%.'') = Inl AttributeError \<and>
   evaluate offline_eval_env (PyInt 7) (PyStr ''Revenue grew 10%.'') =
     \<lparr> bleu_score = None, rouge_1_f1 = None, rouge_2_f1 = None, rouge_l_f1 = None,
       semantic_similarity = None, overall_score = None \<rparr>"
  using evaluate_failure_all_absent
          [of offline_eval_env "PyInt 7" "PyStr ''Revenue grew 10%.''" AttributeError]
        sample_evaluate_fails
  by (cases "evaluate offline_eval_env (PyInt 7) (PyStr ''Revenue grew 10%.'')") simp

lemma evaluate_none_like_inputs:
  "evaluate offline_eval_env PyNone (PyStr '''') =
     \<lparr> bleu_score = None, rouge_1_f1 = Some (Fin 0), rouge_2_f1 = Some (Fin 0),
       rouge_l_f1 = Some (Fin 0), semantic_similarity = None, overall_score = Some (Fin 0) \<rparr>"
  by code_simp

end
